theory Spec2Isabelle
  imports Complex_Main
begin

section \<open>Python values shared by both backbone files\<close>

text \<open>
  The two source files are \<^verbatim>\<open>RecMobileNetV3.py\<close> (the width-scalable mobile-inverted
  backbone) and \<^verbatim>\<open>rec_resnet_vd.py\<close> (the virtual-depth residual backbone).

  Modelling conventions used throughout:
  \<^item> a Python \<^verbatim>\<open>int\<close> is an \<^typ>\<open>int\<close>; a Python \<^verbatim>\<open>float\<close> is the \<^typ>\<open>real\<close> it denotes (NaN
    and the infinities are not values of the model). The float operations inside
    \<^verbatim>\<open>make_divisible\<close>, whose result depends on their rounding, round to double precision;
    the elementwise operations on tensors, and the products of a scale of the supported
    list with an integer of the configuration tables which the constructor passes to
    \<^verbatim>\<open>make_divisible\<close>, are taken on the reals;
  \<^item> every \<^verbatim>\<open>raise\<close>, failed \<^verbatim>\<open>assert\<close>, failed dictionary lookup and failed attribute
    or subscript access is a value of \<open>error\<close>, returned as \<open>Inl\<close>;
  \<^item> \<^verbatim>\<open>assert\<close> statements are executed (the interpreter is not run with \<^verbatim>\<open>-O\<close>).
\<close>

datatype error =
    NotImplementedError string
  | AssertionError
  | KeyError string
  | TypeError
  | AttributeError string
  | IndexError
  | ZeroDivisionError

text \<open>\<^verbatim>\<open>int(x)\<close> of a float truncates towards zero.\<close>

definition py_int :: "real \<Rightarrow> int" where
  "py_int x = (if 0 \<le> x then \<lfloor>x\<rfloor> else \<lceil>x\<rceil>)"

text \<open>
  A \<^verbatim>\<open>stride\<close> argument is either a Python integer or a pair (vertical, horizontal);
  both occur in the configuration tables.
\<close>

datatype stride = IntStride int | PairStride int int

section \<open>Divisibility rounding: \<^verbatim>\<open>MobileNetV3.make_divisible\<close>\<close>

text \<open>
  \<^verbatim>\<open>
  def make_divisible(self, v, divisor=8, min_value=None):
      if min_value is None:
          min_value = divisor
      new_v = max(min_value, int(v + divisor / 2) // divisor * divisor)
      if new_v < 0.9 * v:
          new_v += divisor
      return new_v
  \<close>
  \<^verbatim>\<open>//\<close> on integers is floor division, which is \<open>div\<close> on \<^typ>\<open>int\<close>; it raises
  \<^verbatim>\<open>ZeroDivisionError\<close> for a zero divisor, while \<^verbatim>\<open>divisor / 2\<close> is float division
  by the constant 2.
\<close>

text \<open>
  The arithmetic of \<^verbatim>\<open>make_divisible\<close> is in double precision. A finite double is the real
  number it denotes, and an operation returns the double nearest to the exact result, a tie
  going to the even significand (53 bits, least exponent \<open>- 1074\<close>). Overflow is not
  modelled: with the default divisor 8 no operation of \<^verbatim>\<open>make_divisible\<close> overflows on a
  finite double.
\<close>

definition round_even :: "real \<Rightarrow> int" where
  "round_even x =
     (let n = \<lfloor>x\<rfloor>; r = x - real_of_int n
      in if r < 1 / 2 then n else if 1 / 2 < r then n + 1 else if even n then n else n + 1)"

definition double_exponent :: "real \<Rightarrow> int" where
  "double_exponent x = max (\<lfloor>log 2 \<bar>x\<bar>\<rfloor> - 52) (- 1074)"

definition round_double :: "real \<Rightarrow> real" where
  "round_double x =
     (if x = 0 then 0
      else real_of_int (round_even (x / 2 powr real_of_int (double_exponent x))) *
           2 powr real_of_int (double_exponent x))"

text \<open>
  In \<^verbatim>\<open>make_divisible\<close>, \<open>v\<close> is the value of the argument, \<^verbatim>\<open>divisor / 2\<close> is a double
  division, \<^verbatim>\<open>v + divisor / 2\<close> a double addition, \<^verbatim>\<open>0.9\<close> the double nearest to \<open>9 / 10\<close>
  and \<^verbatim>\<open>0.9 * v\<close> a double multiplication. The comparison of the integer \<^verbatim>\<open>new_v\<close> with
  the double \<^verbatim>\<open>0.9 * v\<close> is exact.
\<close>

definition make_divisible :: "real \<Rightarrow> int \<Rightarrow> int option \<Rightarrow> error + int" where
  "make_divisible v divisor min_value =
     (let min_value' = (case min_value of None \<Rightarrow> divisor | Some m \<Rightarrow> m) in
      if divisor = 0 then Inl ZeroDivisionError
      else
        let half = round_double (real_of_int divisor / 2);
            new_v = max min_value' (py_int (round_double (v + half)) div divisor * divisor);
            new_v' = (if real_of_int new_v < round_double (round_double (9 / 10) * v)
                      then new_v + divisor else new_v)
        in Inr new_v')"

text \<open>
  The specification's wording of the first stage: the multiple of \<open>d\<close> nearest to \<open>v\<close>
  (a tie between two multiples goes to the larger one).
\<close>

definition round_to_nearest_multiple :: "real \<Rightarrow> int \<Rightarrow> int" where
  "round_to_nearest_multiple v d = d * \<lfloor>v / real_of_int d + 1 / 2\<rfloor>"

text \<open>The specification's two-stage rule for divisor 8 and minimum 8.\<close>

definition spec_divisible :: "real \<Rightarrow> int" where
  "spec_divisible v =
     (let candidate = max 8 (round_to_nearest_multiple v 8)
      in if real_of_int candidate < 0.9 * v then candidate + 8 else candidate)"

section \<open>Tensors and the elementwise functions of the runtime\<close>

text \<open>
  A tensor is its shape and its elements in row-major order. The elementwise functions
  the source calls (\<^verbatim>\<open>F.threshold\<close>, \<^verbatim>\<open>F.relu6\<close>, \<^verbatim>\<open>nn.ReLU\<close>, unary minus, arithmetic
  with a Python scalar) are written out; convolution, normalisation and pooling are black
  boxes of the runtime (record \<open>runtime\<close> below).
\<close>

record tensor =
  shape :: "nat list"
  elems :: "real list"

definition pointwise :: "(real \<Rightarrow> real) \<Rightarrow> tensor \<Rightarrow> tensor" where
  "pointwise f x = x\<lparr>elems := map f (elems x)\<rparr>"

text \<open>\<^verbatim>\<open>F.threshold(x, threshold, value)\<close>: \<open>y = x\<close> if \<open>x > threshold\<close>, else \<open>value\<close>.\<close>

definition F_threshold :: "tensor \<Rightarrow> real \<Rightarrow> real \<Rightarrow> tensor" where
  "F_threshold x threshold v = pointwise (\<lambda>a. if a > threshold then a else v) x"

definition F_relu :: "tensor \<Rightarrow> tensor" where
  "F_relu x = pointwise (\<lambda>a. max 0 a) x"

definition F_relu6 :: "tensor \<Rightarrow> tensor" where
  "F_relu6 x = pointwise (\<lambda>a. min (max 0 a) 6) x"

definition tensor_neg :: "tensor \<Rightarrow> tensor" where
  "tensor_neg x = pointwise (\<lambda>a. - a) x"

definition scalar_mul :: "real \<Rightarrow> tensor \<Rightarrow> tensor" where
  "scalar_mul c x = pointwise (\<lambda>a. c * a) x"

definition add_scalar :: "tensor \<Rightarrow> real \<Rightarrow> tensor" where
  "add_scalar x c = pointwise (\<lambda>a. a + c) x"

definition div_scalar :: "tensor \<Rightarrow> real \<Rightarrow> tensor" where
  "div_scalar x c = pointwise (\<lambda>a. a / c) x"

section \<open>Hard-sigmoid: class \<^verbatim>\<open>HardSigmoid\<close>\<close>

text \<open>
  \<^verbatim>\<open>
  class HardSigmoid(nn.Module):
      def __init__(self, slope=.2, offset=.5):
          self.slope = slope
          self.offset = offset
      def forward(self, x):
          x = (self.slope * x) + self.offset
          x = F.threshold(-x, -1, -1)
          x = F.threshold(-x, 0, 0)
          return x
  \<close>
  An omitted constructor argument is \<open>None\<close> and takes the default.
\<close>

record HardSigmoid =
  hs_slope :: real
  hs_offset :: real

definition HardSigmoid_init :: "real option \<Rightarrow> real option \<Rightarrow> HardSigmoid" where
  "HardSigmoid_init slope offset =
     \<lparr>hs_slope = (case slope of None \<Rightarrow> 0.2 | Some s \<Rightarrow> s),
      hs_offset = (case offset of None \<Rightarrow> 0.5 | Some c \<Rightarrow> c)\<rparr>"

definition HardSigmoid_forward :: "HardSigmoid \<Rightarrow> tensor \<Rightarrow> tensor" where
  "HardSigmoid_forward self x =
     (let x1 = add_scalar (scalar_mul (hs_slope self) x) (hs_offset self);
          x2 = F_threshold (tensor_neg x1) (- 1) (- 1);
          x3 = F_threshold (tensor_neg x2) 0 0
      in x3)"

text \<open>The direct formulation of the specification: \<open>clamp(slope * x + offset, 0, 1)\<close>.\<close>

definition clamp :: "real \<Rightarrow> real \<Rightarrow> real \<Rightarrow> real" where
  "clamp a lo hi = min (max a lo) hi"

definition hard_sigmoid_clamp :: "real \<Rightarrow> real \<Rightarrow> tensor \<Rightarrow> tensor" where
  "hard_sigmoid_clamp slope offset x = pointwise (\<lambda>a. clamp (slope * a + offset) 0 1) x"

section \<open>The modules of the runtime and the units built from them\<close>

text \<open>
  An \<^verbatim>\<open>nn.Conv2d\<close>, \<^verbatim>\<open>nn.BatchNorm2d\<close>, \<^verbatim>\<open>nn.AvgPool2d\<close> or \<^verbatim>\<open>nn.MaxPool2d\<close> object is the
  record of its constructor arguments and of the tensors it owns. The runtime's own
  argument validation and its random number generator are outside the two source files:
  a constructor of the runtime always succeeds here, and the initial value of a
  parameter is a function of its shape.
\<close>

record Conv2d =
  conv_in_channels :: int
  conv_out_channels :: int
  conv_kernel_size :: int
  conv_stride :: stride
  conv_padding :: int
  conv_groups :: int
  conv_weight :: tensor
  conv_bias :: "tensor option"

record BatchNorm2d =
  bn_num_features :: int
  bn_weight :: tensor
  bn_bias :: tensor
  bn_running_mean :: tensor
  bn_running_var :: tensor

record AvgPool2d =
  ap_kernel_size :: stride
  ap_stride :: stride
  ap_padding :: int
  ap_ceil_mode :: bool

record MaxPool2d =
  mp_kernel_size :: int
  mp_stride :: int
  mp_padding :: int

text \<open>
  The attribute \<^verbatim>\<open>act\<close> of a \<^verbatim>\<open>ConvBNACT\<close>: the constructor assigns it in three branches of
  an \<^verbatim>\<open>if/elif/elif\<close> without \<^verbatim>\<open>else\<close>, so for any other argument the attribute does not
  exist.
\<close>

datatype act_module = ReLU | HSwish

datatype act_attr = Unassigned | Assigned "act_module option"

record ConvBNACT =
  cba_conv :: Conv2d
  cba_bn :: BatchNorm2d
  cba_act :: act_attr

record ConvBNACTNew =
  cbn_pool :: AvgPool2d
  cbn_conv :: Conv2d
  cbn_bn :: BatchNorm2d
  cbn_act :: "act_module option"

record SEBlock =
  se_pool :: int
  se_conv1 :: Conv2d
  se_conv2 :: Conv2d
  se_relu2 :: HardSigmoid

record ResidualUnit =
  ru_conv0 :: ConvBNACT
  ru_conv1 :: ConvBNACT
  ru_se :: "SEBlock option"
  ru_conv2 :: ConvBNACT
  ru_not_add :: bool

text \<open>
  The foreign checkpoint maps string keys to raw arrays; \<^verbatim>\<open>torch.Tensor(a)\<close> turns an array
  into a tensor of the runtime. \<^verbatim>\<open>load_state_dict\<close> is the runtime's method that installs an
  ordered dictionary of named tensors into a unit; it returns the error it raised, if
  any, and the unit as it left it.
\<close>

type_synonym ndarray = tensor

record runtime =
  kaiming_uniform :: "int list \<Rightarrow> tensor"
  uniform_bias :: "int list \<Rightarrow> tensor"
  ones :: "int list \<Rightarrow> tensor"
  zeros :: "int list \<Rightarrow> tensor"
  conv2d :: "Conv2d \<Rightarrow> tensor \<Rightarrow> tensor"
  batch_norm :: "BatchNorm2d \<Rightarrow> tensor \<Rightarrow> tensor"
  avg_pool2d :: "AvgPool2d \<Rightarrow> tensor \<Rightarrow> tensor"
  adaptive_avg_pool2d :: "int \<Rightarrow> tensor \<Rightarrow> tensor"
  max_pool2d :: "MaxPool2d \<Rightarrow> tensor \<Rightarrow> tensor"
  broadcast_add :: "tensor \<Rightarrow> tensor \<Rightarrow> tensor"
  broadcast_mul :: "tensor \<Rightarrow> tensor \<Rightarrow> tensor"
  torch_Tensor :: "ndarray \<Rightarrow> tensor"
  load_state_dict :: "(string \<times> tensor) list \<Rightarrow> ConvBNACT \<Rightarrow> error option \<times> ConvBNACT"

text \<open>
  \<^verbatim>\<open>x + y\<close> and \<^verbatim>\<open>x * y\<close> on tensors: elementwise when the shapes agree, the runtime's
  broadcasting otherwise.
\<close>

definition tensor_add :: "runtime \<Rightarrow> tensor \<Rightarrow> tensor \<Rightarrow> tensor" where
  "tensor_add rt x y =
     (if shape x = shape y
      then \<lparr>shape = shape x, elems = map2 (\<lambda>a b. a + b) (elems x) (elems y)\<rparr>
      else broadcast_add rt x y)"

definition tensor_mul :: "runtime \<Rightarrow> tensor \<Rightarrow> tensor \<Rightarrow> tensor" where
  "tensor_mul rt x y =
     (if shape x = shape y
      then \<lparr>shape = shape x, elems = map2 (\<lambda>a b. a * b) (elems x) (elems y)\<rparr>
      else broadcast_mul rt x y)"

definition Conv2d_init ::
  "runtime \<Rightarrow> int \<Rightarrow> int \<Rightarrow> int \<Rightarrow> stride \<Rightarrow> int \<Rightarrow> int \<Rightarrow> bool \<Rightarrow> Conv2d" where
  "Conv2d_init rt in_channels out_channels kernel_size strd padding groups use_bias =
     \<lparr>conv_in_channels = in_channels, conv_out_channels = out_channels,
      conv_kernel_size = kernel_size, conv_stride = strd, conv_padding = padding,
      conv_groups = groups,
      conv_weight =
        kaiming_uniform rt [out_channels, in_channels div groups, kernel_size, kernel_size],
      conv_bias = (if use_bias then Some (uniform_bias rt [out_channels]) else None)\<rparr>"

definition BatchNorm2d_init :: "runtime \<Rightarrow> int \<Rightarrow> BatchNorm2d" where
  "BatchNorm2d_init rt num_features =
     \<lparr>bn_num_features = num_features,
      bn_weight = ones rt [num_features], bn_bias = zeros rt [num_features],
      bn_running_mean = zeros rt [num_features], bn_running_var = ones rt [num_features]\<rparr>"

section \<open>The mobile-inverted family (\<^verbatim>\<open>RecMobileNetV3.py\<close>)\<close>

subsection \<open>\<^verbatim>\<open>HSwish\<close> and \<^verbatim>\<open>ConvBNACT\<close>\<close>

text \<open>\<^verbatim>\<open>out = x * F.relu6(x + 3, inplace=True) / 6\<close>\<close>

definition HSwish_forward :: "runtime \<Rightarrow> tensor \<Rightarrow> tensor" where
  "HSwish_forward rt x = div_scalar (tensor_mul rt x (F_relu6 (add_scalar x 3))) 6"

text \<open>
  \<^verbatim>\<open>
  def __init__(self, in_channels, out_channels, kernel_size, stride=1, padding=0,
               groups=1, act=None):
      self.conv = nn.Conv2d(in_channels=in_channels, out_channels=out_channels,
                            kernel_size=kernel_size, stride=stride, padding=padding,
                            groups=groups, bias=False)
      self.bn = nn.BatchNorm2d(out_channels)
      if act == 'relu':
          self.act = nn.ReLU()
      elif act == 'hard_swish':
          self.act = HSwish()
      elif act is None:
          self.act = None
  \<close>
  Every call below writes the defaults out (\<open>stride = 1\<close>, \<open>padding = 0\<close>, \<open>groups = 1\<close>,
  \<open>act = None\<close>).
\<close>

definition ConvBNACT_init ::
  "runtime \<Rightarrow> int \<Rightarrow> int \<Rightarrow> int \<Rightarrow> stride \<Rightarrow> int \<Rightarrow> int \<Rightarrow> string option \<Rightarrow> ConvBNACT" where
  "ConvBNACT_init rt in_channels out_channels kernel_size strd padding groups act =
     \<lparr>cba_conv = Conv2d_init rt in_channels out_channels kernel_size strd padding groups False,
      cba_bn = BatchNorm2d_init rt out_channels,
      cba_act =
        (if act = Some ''relu'' then Assigned (Some ReLU)
         else if act = Some ''hard_swish'' then Assigned (Some HSwish)
         else if act = None then Assigned None
         else Unassigned)\<rparr>"

definition act_forward :: "runtime \<Rightarrow> act_module \<Rightarrow> tensor \<Rightarrow> tensor" where
  "act_forward rt m x = (case m of ReLU \<Rightarrow> F_relu x | HSwish \<Rightarrow> HSwish_forward rt x)"

text \<open>
  \<^verbatim>\<open>
  def forward(self, x):
      x = self.conv(x)
      x = self.bn(x)
      if self.act is not None:
          x = self.act(x)
      return x
  \<close>
  Reading an attribute that was never assigned raises \<^verbatim>\<open>AttributeError\<close>.
\<close>

definition ConvBNACT_forward :: "runtime \<Rightarrow> ConvBNACT \<Rightarrow> tensor \<Rightarrow> error + tensor" where
  "ConvBNACT_forward rt self x =
     (let x1 = conv2d rt (cba_conv self) x;
          x2 = batch_norm rt (cba_bn self) x1
      in case cba_act self of
           Unassigned \<Rightarrow> Inl (AttributeError ''act'')
         | Assigned None \<Rightarrow> Inr x2
         | Assigned (Some m) \<Rightarrow> Inr (act_forward rt m x2))"

text \<open>
  \<^verbatim>\<open>
  def load_3rd_state_dict(self, _3rd_name, _state, _name_prefix):
      to_load_state_dict = OrderedDict()
      if _3rd_name == 'paddle':
          to_load_state_dict['conv.weight'] = torch.Tensor(_state[f'{_name_prefix}_weights'])
          to_load_state_dict['bn.weight'] = torch.Tensor(_state[f'{_name_prefix}_bn_scale'])
          to_load_state_dict['bn.bias'] = torch.Tensor(_state[f'{_name_prefix}_bn_offset'])
          to_load_state_dict['bn.running_mean'] = torch.Tensor(_state[f'{_name_prefix}_bn_mean'])
          to_load_state_dict['bn.running_var'] = torch.Tensor(_state[f'{_name_prefix}_bn_variance'])
          self.load_state_dict(to_load_state_dict)
      else:
          pass
  \<close>
  The method mutates \<^verbatim>\<open>self\<close>: the model returns the error raised, if any, together with
  the unit as the call leaves it. \<^verbatim>\<open>_state[k]\<close> raises \<^verbatim>\<open>KeyError(k)\<close> for an absent key.
\<close>

definition ConvBNACT_load_3rd_state_dict ::
  "runtime \<Rightarrow> string \<Rightarrow> (string \<rightharpoonup> ndarray) \<Rightarrow> string \<Rightarrow> ConvBNACT \<Rightarrow> error option \<times> ConvBNACT" where
  "ConvBNACT_load_3rd_state_dict rt name3rd state name_prefix self =
     (if name3rd = ''paddle'' then
        (case state (name_prefix @ ''_weights'') of
           None \<Rightarrow> (Some (KeyError (name_prefix @ ''_weights'')), self)
         | Some a1 \<Rightarrow>
        (case state (name_prefix @ ''_bn_scale'') of
           None \<Rightarrow> (Some (KeyError (name_prefix @ ''_bn_scale'')), self)
         | Some a2 \<Rightarrow>
        (case state (name_prefix @ ''_bn_offset'') of
           None \<Rightarrow> (Some (KeyError (name_prefix @ ''_bn_offset'')), self)
         | Some a3 \<Rightarrow>
        (case state (name_prefix @ ''_bn_mean'') of
           None \<Rightarrow> (Some (KeyError (name_prefix @ ''_bn_mean'')), self)
         | Some a4 \<Rightarrow>
        (case state (name_prefix @ ''_bn_variance'') of
           None \<Rightarrow> (Some (KeyError (name_prefix @ ''_bn_variance'')), self)
         | Some a5 \<Rightarrow>
             load_state_dict rt
               [(''conv.weight'', torch_Tensor rt a1),
                (''bn.weight'', torch_Tensor rt a2),
                (''bn.bias'', torch_Tensor rt a3),
                (''bn.running_mean'', torch_Tensor rt a4),
                (''bn.running_var'', torch_Tensor rt a5)]
               self)))))
      else (None, self))"

text \<open>The five keys the import of one unit requires, in the specification's wording.\<close>

definition required_keys :: "string \<Rightarrow> string list" where
  "required_keys name_prefix =
     map (\<lambda>suffix. name_prefix @ suffix)
       [''_weights'', ''_bn_scale'', ''_bn_offset'', ''_bn_mean'', ''_bn_variance'']"

subsection \<open>\<^verbatim>\<open>SEBlock\<close>\<close>

text \<open>
  \<^verbatim>\<open>
  def __init__(self, in_channels, out_channels, ratio=4):
      num_mid_filter = out_channels // ratio
      self.pool = nn.AdaptiveAvgPool2d(1)
      self.conv1 = nn.Conv2d(in_channels=in_channels, out_channels=num_mid_filter,
                             kernel_size=1, bias=True)
      self.relu1 = nn.ReLU()
      self.conv2 = nn.Conv2d(in_channels=num_mid_filter, kernel_size=1,
                             out_channels=out_channels, bias=True)
      self.relu2 = HardSigmoid()
  \<close>
  The only call leaves \<open>ratio\<close> at its default 4.
\<close>

definition SEBlock_init :: "runtime \<Rightarrow> int \<Rightarrow> int \<Rightarrow> SEBlock" where
  "SEBlock_init rt in_channels out_channels =
     (let ratio = 4;
          num_mid_filter = out_channels div ratio
      in \<lparr>se_pool = 1,
          se_conv1 = Conv2d_init rt in_channels num_mid_filter 1 (IntStride 1) 0 1 True,
          se_conv2 = Conv2d_init rt num_mid_filter out_channels 1 (IntStride 1) 0 1 True,
          se_relu2 = HardSigmoid_init None None\<rparr>)"

text \<open>
  \<^verbatim>\<open>
  def forward(self, x):
      attn = self.pool(x)
      attn = self.conv1(attn)
      attn = self.relu1(attn)
      attn = self.conv2(attn)
      attn = self.relu2(attn)
      return x * attn
  \<close>
\<close>

definition SEBlock_forward :: "runtime \<Rightarrow> SEBlock \<Rightarrow> tensor \<Rightarrow> tensor" where
  "SEBlock_forward rt self x =
     (let attn1 = adaptive_avg_pool2d rt (se_pool self) x;
          attn2 = conv2d rt (se_conv1 self) attn1;
          attn3 = F_relu attn2;
          attn4 = conv2d rt (se_conv2 self) attn3;
          attn5 = HardSigmoid_forward (se_relu2 self) attn4
      in tensor_mul rt x attn5)"

subsection \<open>\<^verbatim>\<open>ResidualUnit\<close>\<close>

text \<open>
  \<^verbatim>\<open>
  def __init__(self, num_in_filter, num_mid_filter, num_out_filter, stride, kernel_size,
               act=None, use_se=False):
      self.conv0 = ConvBNACT(in_channels=num_in_filter, out_channels=num_mid_filter,
                             kernel_size=1, stride=1, padding=0, act=act)
      self.conv1 = ConvBNACT(in_channels=num_mid_filter, out_channels=num_mid_filter,
                             kernel_size=kernel_size, stride=stride,
                             padding=int((kernel_size - 1) // 2), act=act,
                             groups=num_mid_filter)
      if use_se:
          self.se = SEBlock(in_channels=num_mid_filter, out_channels=num_mid_filter)
      else:
          self.se = None
      self.conv2 = ConvBNACT(in_channels=num_mid_filter, out_channels=num_out_filter,
                             kernel_size=1, stride=1, padding=0)
      self.not_add = num_in_filter != num_out_filter or stride != 1
  \<close>
  \<^verbatim>\<open>stride != 1\<close> is false for the integer 1 only: a pair never equals an integer.
\<close>

definition ResidualUnit_init ::
  "runtime \<Rightarrow> int \<Rightarrow> int \<Rightarrow> int \<Rightarrow> stride \<Rightarrow> int \<Rightarrow> string option \<Rightarrow> bool \<Rightarrow> ResidualUnit" where
  "ResidualUnit_init rt num_in_filter num_mid_filter num_out_filter strd kernel_size act use_se =
     \<lparr>ru_conv0 = ConvBNACT_init rt num_in_filter num_mid_filter 1 (IntStride 1) 0 1 act,
      ru_conv1 = ConvBNACT_init rt num_mid_filter num_mid_filter kernel_size strd
                   ((kernel_size - 1) div 2) num_mid_filter act,
      ru_se = (if use_se then Some (SEBlock_init rt num_mid_filter num_mid_filter) else None),
      ru_conv2 = ConvBNACT_init rt num_mid_filter num_out_filter 1 (IntStride 1) 0 1 None,
      ru_not_add = (num_in_filter \<noteq> num_out_filter \<or> strd \<noteq> IntStride 1)\<rparr>"

text \<open>Sequencing of calls that may raise: the first error ends the computation.\<close>

definition bind_e :: "error + 'a \<Rightarrow> ('a \<Rightarrow> error + 'b) \<Rightarrow> error + 'b" where
  "bind_e m f = (case m of Inl e \<Rightarrow> Inl e | Inr a \<Rightarrow> f a)"

text \<open>
  \<^verbatim>\<open>
  def forward(self, x):
      y = self.conv0(x)
      y = self.conv1(y)
      if self.se is not None:
          y = self.se(y)
      y = self.conv2(y)
      if self.not_add == False:
          y = x + y
      return y
  \<close>
\<close>

definition ResidualUnit_forward :: "runtime \<Rightarrow> ResidualUnit \<Rightarrow> tensor \<Rightarrow> error + tensor" where
  "ResidualUnit_forward rt self x =
     bind_e (ConvBNACT_forward rt (ru_conv0 self) x) (\<lambda>y0.
     bind_e (ConvBNACT_forward rt (ru_conv1 self) y0) (\<lambda>y1.
     let y2 = (case ru_se self of None \<Rightarrow> y1 | Some se \<Rightarrow> SEBlock_forward rt se y1) in
     bind_e (ConvBNACT_forward rt (ru_conv2 self) y2) (\<lambda>y3.
     Inr (if ru_not_add self = False then tensor_add rt x y3 else y3))))"

subsection \<open>\<^verbatim>\<open>MobileNetV3.__init__\<close>\<close>










section \<open>The virtual-depth family (\<^verbatim>\<open>rec_resnet_vd.py\<close>)\<close>

text \<open>
  The file imports \<^verbatim>\<open>ConvBNACT\<close> from the package's mobile-inverted module; it is the class
  of that name modelled above (the direct-stride unit). \<^verbatim>\<open>ConvBNACTNew\<close> is the
  pool-then-stride unit:
  \<^verbatim>\<open>
  def __init__(self, in_channels, out_channels, kernel_size, stride=1, groups=1, act=None,
               name=None):
      self.pool = nn.AvgPool2d(kernel_size=stride, stride=stride, padding=0, ceil_mode=True)
      self.conv = nn.Conv2d(in_channels=in_channels, out_channels=out_channels,
                            kernel_size=kernel_size, stride=1,
                            padding=(kernel_size - 1) // 2, groups=groups, bias=False)
      self.bn = nn.BatchNorm2d(out_channels)
      if act is None:
          self.act = None
      else:
          self.act = nn.ReLU()
  def forward(self, x):
      x = self.pool(x)
      x = self.conv(x)
      x = self.bn(x)
      if self.act is not None:
          x = self.act(x)
      return x
  \<close>
\<close>

definition ConvBNACTNew_init ::
  "runtime \<Rightarrow> int \<Rightarrow> int \<Rightarrow> int \<Rightarrow> stride \<Rightarrow> int \<Rightarrow> string option \<Rightarrow> ConvBNACTNew" where
  "ConvBNACTNew_init rt in_channels out_channels kernel_size strd groups act =
     \<lparr>cbn_pool = \<lparr>ap_kernel_size = strd, ap_stride = strd, ap_padding = 0, ap_ceil_mode = True\<rparr>,
      cbn_conv = Conv2d_init rt in_channels out_channels kernel_size (IntStride 1)
                   ((kernel_size - 1) div 2) groups False,
      cbn_bn = BatchNorm2d_init rt out_channels,
      cbn_act = (if act = None then None else Some ReLU)\<rparr>"

definition ConvBNACTNew_forward :: "runtime \<Rightarrow> ConvBNACTNew \<Rightarrow> tensor \<Rightarrow> tensor" where
  "ConvBNACTNew_forward rt self x =
     (let x1 = avg_pool2d rt (cbn_pool self) x;
          x2 = conv2d rt (cbn_conv self) x1;
          x3 = batch_norm rt (cbn_bn self) x2
      in case cbn_act self of None \<Rightarrow> x3 | Some m \<Rightarrow> act_forward rt m x3)"

subsection \<open>\<^verbatim>\<open>ShurtCut\<close>\<close>

text \<open>
  \<^verbatim>\<open>
  def __init__(self, in_channels, out_channels, stride, if_first=False):
      if in_channels != out_channels or stride[0] != 1:
          if if_first:
              self.conv = ConvBNACT(in_channels=in_channels, out_channels=out_channels,
                                    kernel_size=1, stride=stride, padding=0, groups=1, act=None)
          else:
              self.conv = ConvBNACTNew(in_channels=in_channels, out_channels=out_channels,
                                       kernel_size=1, stride=stride, groups=1, act=None)
      elif if_first:
          self.conv = ConvBNACT(in_channels=in_channels, out_channels=out_channels,
                                kernel_size=1, stride=stride, padding=0, groups=1, act=None)
      else:
          self.conv = None
  def forward(self, x):
      if self.conv is not None:
          x = self.conv(x)
      return x
  \<close>
  The attribute \<^verbatim>\<open>conv\<close> holds an object of one of two classes or \<^verbatim>\<open>None\<close>. \<^verbatim>\<open>or\<close> evaluates
  \<^verbatim>\<open>stride[0]\<close> only when the channel counts are equal; subscripting an integer raises
  \<^verbatim>\<open>TypeError\<close>.
\<close>

datatype shortcut_conv = DirectStride ConvBNACT | PoolThenStride ConvBNACTNew

record ShurtCut =
  sc_conv :: "shortcut_conv option"

definition ShurtCut_init :: "runtime \<Rightarrow> int \<Rightarrow> int \<Rightarrow> stride \<Rightarrow> bool \<Rightarrow> error + ShurtCut" where
  "ShurtCut_init rt in_channels out_channels strd if_first =
     (let projection =
            (if if_first
             then \<lparr>sc_conv = Some (DirectStride
                     (ConvBNACT_init rt in_channels out_channels 1 strd 0 1 None))\<rparr>
             else \<lparr>sc_conv = Some (PoolThenStride
                     (ConvBNACTNew_init rt in_channels out_channels 1 strd 1 None))\<rparr>)
      in
      if in_channels \<noteq> out_channels then Inr projection
      else
        (case strd of
           IntStride n \<Rightarrow> Inl TypeError
         | PairStride s0 s1 \<Rightarrow>
             if s0 \<noteq> 1 then Inr projection
             else if if_first
             then Inr \<lparr>sc_conv = Some (DirectStride
                         (ConvBNACT_init rt in_channels out_channels 1 strd 0 1 None))\<rparr>
             else Inr \<lparr>sc_conv = None\<rparr>))"

definition ShurtCut_forward :: "runtime \<Rightarrow> ShurtCut \<Rightarrow> tensor \<Rightarrow> error + tensor" where
  "ShurtCut_forward rt self x =
     (case sc_conv self of
        None \<Rightarrow> Inr x
      | Some (DirectStride c) \<Rightarrow> ConvBNACT_forward rt c x
      | Some (PoolThenStride c) \<Rightarrow> Inr (ConvBNACTNew_forward rt c x))"

subsection \<open>\<^verbatim>\<open>BasicBlock\<close> and \<^verbatim>\<open>BottleneckBlock\<close>\<close>

text \<open>
  \<^verbatim>\<open>
  class BasicBlock(nn.Module):
      def __init__(self, in_channels, out_channels, stride, if_first):
          self.conv0 = ConvBNACT(in_channels=in_channels, out_channels=out_channels,
                                 kernel_size=3, stride=stride, padding=1, groups=1, act='relu')
          self.conv1 = ConvBNACT(in_channels=out_channels, out_channels=out_channels,
                                 kernel_size=3, stride=1, padding=1, groups=1, act=None)
          self.shortcut = ShurtCut(in_channels=in_channels, out_channels=out_channels,
                                   stride=stride, if_first=if_first)
          self.relu = nn.ReLU()
      def forward(self, x):
          y = self.conv0(x)
          y = self.conv1(y)
          y = y + self.shortcut(x)
          return self.relu(y)
  \<close>
  The stateless \<^verbatim>\<open>nn.ReLU\<close> held in \<^verbatim>\<open>self.relu\<close> is not a field of the record.
\<close>

record BasicBlock =
  bb_conv0 :: ConvBNACT
  bb_conv1 :: ConvBNACT
  bb_shortcut :: ShurtCut

definition BasicBlock_init :: "runtime \<Rightarrow> int \<Rightarrow> int \<Rightarrow> stride \<Rightarrow> bool \<Rightarrow> error + BasicBlock" where
  "BasicBlock_init rt in_channels out_channels strd if_first =
     (let conv0 = ConvBNACT_init rt in_channels out_channels 3 strd 1 1 (Some ''relu'');
          conv1 = ConvBNACT_init rt out_channels out_channels 3 (IntStride 1) 1 1 None
      in case ShurtCut_init rt in_channels out_channels strd if_first of
           Inl e \<Rightarrow> Inl e
         | Inr shortcut \<Rightarrow> Inr \<lparr>bb_conv0 = conv0, bb_conv1 = conv1, bb_shortcut = shortcut\<rparr>)"

definition BasicBlock_forward :: "runtime \<Rightarrow> BasicBlock \<Rightarrow> tensor \<Rightarrow> error + tensor" where
  "BasicBlock_forward rt self x =
     bind_e (ConvBNACT_forward rt (bb_conv0 self) x) (\<lambda>y0.
     bind_e (ConvBNACT_forward rt (bb_conv1 self) y0) (\<lambda>y1.
     bind_e (ShurtCut_forward rt (bb_shortcut self) x) (\<lambda>sc.
     Inr (F_relu (tensor_add rt y1 sc)))))"

text \<open>
  \<^verbatim>\<open>
  class BottleneckBlock(nn.Module):
      def __init__(self, in_channels, out_channels, stride, if_first):
          self.conv0 = ConvBNACT(in_channels=in_channels, out_channels=out_channels,
                                 kernel_size=1, stride=1, padding=0, groups=1, act='relu')
          self.conv1 = ConvBNACT(in_channels=out_channels, out_channels=out_channels,
                                 kernel_size=3, stride=stride, padding=1, groups=1, act='relu')
          self.conv2 = ConvBNACT(in_channels=out_channels, out_channels=out_channels * 4,
                                 kernel_size=1, stride=1, padding=1, groups=1, act=None)
          self.shortcut = ShurtCut(in_channels=in_channels, out_channels=out_channels * 4,
                                   stride=stride, if_first=if_first)
          self.relu = nn.ReLU()
      def forwart(self, x):
          y = self.conv0(x)
          y = self.conv1(y)
          y = self.conv2(y)
          y = y + self.shortcut(x)
          return self.relu(y)
  \<close>
  The second method of the class is named \<^verbatim>\<open>forwart\<close>.
\<close>

record BottleneckBlock =
  bt_conv0 :: ConvBNACT
  bt_conv1 :: ConvBNACT
  bt_conv2 :: ConvBNACT
  bt_shortcut :: ShurtCut

definition BottleneckBlock_init ::
  "runtime \<Rightarrow> int \<Rightarrow> int \<Rightarrow> stride \<Rightarrow> bool \<Rightarrow> error + BottleneckBlock" where
  "BottleneckBlock_init rt in_channels out_channels strd if_first =
     (let conv0 = ConvBNACT_init rt in_channels out_channels 1 (IntStride 1) 0 1 (Some ''relu'');
          conv1 = ConvBNACT_init rt out_channels out_channels 3 strd 1 1 (Some ''relu'');
          conv2 = ConvBNACT_init rt out_channels (out_channels * 4) 1 (IntStride 1) 1 1 None
      in case ShurtCut_init rt in_channels (out_channels * 4) strd if_first of
           Inl e \<Rightarrow> Inl e
         | Inr shortcut \<Rightarrow>
             Inr \<lparr>bt_conv0 = conv0, bt_conv1 = conv1, bt_conv2 = conv2, bt_shortcut = shortcut\<rparr>)"

definition BottleneckBlock_forwart :: "runtime \<Rightarrow> BottleneckBlock \<Rightarrow> tensor \<Rightarrow> error + tensor" where
  "BottleneckBlock_forwart rt self x =
     bind_e (ConvBNACT_forward rt (bt_conv0 self) x) (\<lambda>y0.
     bind_e (ConvBNACT_forward rt (bt_conv1 self) y0) (\<lambda>y1.
     bind_e (ConvBNACT_forward rt (bt_conv2 self) y1) (\<lambda>y2.
     bind_e (ShurtCut_forward rt (bt_shortcut self) x) (\<lambda>sc.
     Inr (F_relu (tensor_add rt y2 sc))))))"

subsection \<open>Calling a module\<close>

text \<open>
  Applying a module object to a tensor, \<^verbatim>\<open>m(x)\<close>, is \<^verbatim>\<open>nn.Module.__call__\<close>, which calls the
  method found under the name \<^verbatim>\<open>forward\<close>: the one the object's class defines, or else the
  one inherited from \<^verbatim>\<open>nn.Module\<close>, which raises \<^verbatim>\<open>NotImplementedError\<close> (its message is
  the runtime's and is left empty). A class is given by the table of the tensor methods
  its body defines, under their names. Inside the units above, where the class of the
  callee defines \<^verbatim>\<open>forward\<close>, the call is written as that function directly.
\<close>

type_synonym 'm tensor_method = "runtime \<Rightarrow> 'm \<Rightarrow> tensor \<Rightarrow> error + tensor"

definition BasicBlock_methods :: "(string \<times> BasicBlock tensor_method) list" where
  "BasicBlock_methods = [(''forward'', BasicBlock_forward)]"

definition BottleneckBlock_methods :: "(string \<times> BottleneckBlock tensor_method) list" where
  "BottleneckBlock_methods = [(''forwart'', BottleneckBlock_forwart)]"

definition Module_call :: "(string \<times> 'm tensor_method) list \<Rightarrow> 'm tensor_method" where
  "Module_call methods rt self x =
     (case map_of methods ''forward'' of
        Some f \<Rightarrow> f rt self x
      | None \<Rightarrow> Inl (NotImplementedError []))"

subsection \<open>\<^verbatim>\<open>ResNet\<close>\<close>

text \<open>
  \<^verbatim>\<open>block_class\<close> is one of the two block classes; a block of a stage is an object of
  either.
\<close>

datatype block_class = BasicBlockClass | BottleneckBlockClass

datatype block = Basic BasicBlock | Bottleneck BottleneckBlock

definition block_class_init ::
  "block_class \<Rightarrow> runtime \<Rightarrow> int \<Rightarrow> int \<Rightarrow> stride \<Rightarrow> bool \<Rightarrow> error + block" where
  "block_class_init cls rt in_channels out_channels strd if_first =
     (case cls of
        BasicBlockClass \<Rightarrow>
          (case BasicBlock_init rt in_channels out_channels strd if_first of
             Inl e \<Rightarrow> Inl e | Inr b \<Rightarrow> Inr (Basic b))
      | BottleneckBlockClass \<Rightarrow>
          (case BottleneckBlock_init rt in_channels out_channels strd if_first of
             Inl e \<Rightarrow> Inl e | Inr b \<Rightarrow> Inr (Bottleneck b)))"

definition block_call :: "runtime \<Rightarrow> block \<Rightarrow> tensor \<Rightarrow> error + tensor" where
  "block_call rt b x =
     (case b of
        Basic self \<Rightarrow> Module_call BasicBlock_methods rt self x
      | Bottleneck self \<Rightarrow> Module_call BottleneckBlock_methods rt self x)"

datatype rn_unit = RnConv ConvBNACT | RnPool MaxPool2d | RnBlock block

text \<open>\<^verbatim>\<open>xs[i]\<close> for a list and a non-negative index; out of range it raises \<^verbatim>\<open>IndexError\<close>.\<close>

definition py_index :: "'a list \<Rightarrow> nat \<Rightarrow> error + 'a" where
  "py_index xs i = (if i < length xs then Inr (xs ! i) else Inl IndexError)"

text \<open>
  \<^verbatim>\<open>
  in_ch = 64
  for block in range(len(depth)):
      block_list = []
      for i in range(depth[block]):
          if i == 0 and block != 0:
              stride = (2, 1)
          else:
              stride = (1, 1)
          block_list.append(block_class(in_channels=in_ch, out_channels=num_filters[block],
                                        stride=stride, if_first=block == i == 0))
          in_ch = num_filters[block]
      self.stages.append(nn.Sequential(*block_list))
  \<close>
  The inner loop runs over the list \<open>[0..<depth ! block]\<close> and the outer loop over
  \<open>[0..<length depth]\<close>, so the read \<^verbatim>\<open>depth[block]\<close> is in range. \<^verbatim>\<open>block == i == 0\<close> is
  \<^verbatim>\<open>block == i and i == 0\<close>.
\<close>

fun block_list_loop ::
  "runtime \<Rightarrow> block_class \<Rightarrow> int list \<Rightarrow> nat \<Rightarrow> nat list \<Rightarrow> int \<times> block list \<times> rn_unit list \<Rightarrow>
   (error + int \<times> block list) \<times> rn_unit list" where
  "block_list_loop rt cls num_filters blk [] (in_ch, block_list, built) =
     (Inr (in_ch, block_list), built)"
| "block_list_loop rt cls num_filters blk (i # rest) (in_ch, block_list, built) =
     (let strd = (if i = 0 \<and> blk \<noteq> 0 then PairStride 2 1 else PairStride 1 1) in
      case py_index num_filters blk of
        Inl e \<Rightarrow> (Inl e, built)
      | Inr out_ch \<Rightarrow>
     (case block_class_init cls rt in_ch out_ch strd (blk = i \<and> i = 0) of
        Inl e \<Rightarrow> (Inl e, built)
      | Inr b \<Rightarrow>
     (case py_index num_filters blk of
        Inl e \<Rightarrow> (Inl e, built @ [RnBlock b])
      | Inr in_ch' \<Rightarrow>
          block_list_loop rt cls num_filters blk rest
            (in_ch', block_list @ [b], built @ [RnBlock b]))))"

fun stages_loop ::
  "runtime \<Rightarrow> block_class \<Rightarrow> nat list \<Rightarrow> int list \<Rightarrow> nat list \<Rightarrow>
   int \<times> block list list \<times> rn_unit list \<Rightarrow> (error + int \<times> block list list) \<times> rn_unit list" where
  "stages_loop rt cls depth num_filters [] (in_ch, stages, built) = (Inr (in_ch, stages), built)"
| "stages_loop rt cls depth num_filters (blk # rest) (in_ch, stages, built) =
     (case block_list_loop rt cls num_filters blk [0..<depth ! blk] (in_ch, [], built) of
        (Inl e, built') \<Rightarrow> (Inl e, built')
      | (Inr (in_ch', block_list), built') \<Rightarrow>
          stages_loop rt cls depth num_filters rest (in_ch', stages @ [block_list], built'))"

text \<open>
  \<^verbatim>\<open>
  def __init__(self, in_channels, layers, **kwargs):
      super().__init__()
      self.is_3x3 = True
      supported_layers = {
          18: {'depth': [2, 2, 2, 2], 'block_class': BasicBlock},
          34: {'depth': [3, 4, 6, 3], 'block_class': BasicBlock},
          50: {'depth': [3, 4, 6, 3], 'block_class': BottleneckBlock},
          101: {'depth': [3, 4, 23, 3], 'block_class': BottleneckBlock},
          152: {'depth': [3, 8, 36, 3], 'block_class': BottleneckBlock},
          200: {'depth': [3, 12, 48, 3], 'block_class': BottleneckBlock}
      }
      assert layers in supported_layers, "..."
      depth = supported_layers[layers]['depth']
      block_class = supported_layers[layers]['block_class']
      is_3x3 = self.is_3x3
      num_filters = [64, 128, 256, 512]
      if is_3x3 == False:
          self.conv1 = ConvBNACT(in_channels=in_channels, out_channels=64, kernel_size=7,
                                 stride=1, padding=3, act='relu')
      else:
          self.conv1 = nn.Sequential(
              ConvBNACT(in_channels=in_channels, out_channels=32, kernel_size=3, stride=1,
                        padding=1, act='relu'),
              ConvBNACT(in_channels=32, out_channels=32, kernel_size=3, stride=1, act='relu',
                        padding=1),
              ConvBNACT(in_channels=32, out_channels=64, kernel_size=3, stride=1, act='relu',
                        padding=1))
      self.pool1 = nn.MaxPool2d(kernel_size=3, stride=2, padding=1)
      self.stages = nn.ModuleList()
      in_ch = 64
      for block in range(len(depth)): ...
      self.out_channels = in_ch
      self.out = nn.MaxPool2d(kernel_size=2, stride=2, padding=0)
  \<close>
  The stem \<^verbatim>\<open>conv1\<close> is the list of the units it runs in sequence.
\<close>

definition supported_layers :: "(int \<times> nat list \<times> block_class) list" where
  "supported_layers =
     [(18, [2, 2, 2, 2], BasicBlockClass),
      (34, [3, 4, 6, 3], BasicBlockClass),
      (50, [3, 4, 6, 3], BottleneckBlockClass),
      (101, [3, 4, 23, 3], BottleneckBlockClass),
      (152, [3, 8, 36, 3], BottleneckBlockClass),
      (200, [3, 12, 48, 3], BottleneckBlockClass)]"

record ResNet =
  rn_is_3x3 :: bool
  rn_conv1 :: "ConvBNACT list"
  rn_pool1 :: MaxPool2d
  rn_stages :: "block list list"
  rn_out_channels :: int
  rn_out :: MaxPool2d

definition ResNet_init :: "runtime \<Rightarrow> int \<Rightarrow> int \<Rightarrow> (error + ResNet) \<times> rn_unit list" where
  "ResNet_init rt in_channels layers =
     (let is_3x3 = True;
          built0 = []
      in
      case map_of supported_layers layers of
        None \<Rightarrow> (Inl AssertionError, built0)
      | Some (depth, cls) \<Rightarrow>
      (let num_filters = [64, 128, 256, 512];
           conv1 =
             (if is_3x3 = False
              then [ConvBNACT_init rt in_channels 64 7 (IntStride 1) 3 1 (Some ''relu'')]
              else [ConvBNACT_init rt in_channels 32 3 (IntStride 1) 1 1 (Some ''relu''),
                    ConvBNACT_init rt 32 32 3 (IntStride 1) 1 1 (Some ''relu''),
                    ConvBNACT_init rt 32 64 3 (IntStride 1) 1 1 (Some ''relu'')]);
           built1 = built0 @ map RnConv conv1;
           pool1 = \<lparr>mp_kernel_size = 3, mp_stride = 2, mp_padding = 1\<rparr>;
           built2 = built1 @ [RnPool pool1];
           in_ch = 64
       in
       case stages_loop rt cls depth num_filters [0..<length depth] (in_ch, [], built2) of
         (Inl e, built3) \<Rightarrow> (Inl e, built3)
       | (Inr (in_ch', stages), built3) \<Rightarrow>
      (let out = \<lparr>mp_kernel_size = 2, mp_stride = 2, mp_padding = 0\<rparr>;
           built4 = built3 @ [RnPool out]
       in (Inr \<lparr>rn_is_3x3 = is_3x3, rn_conv1 = conv1, rn_pool1 = pool1, rn_stages = stages,
                 rn_out_channels = in_ch', rn_out = out\<rparr>,
           built4))))"

text \<open>
  \<^verbatim>\<open>
  def forward(self, x):
      x = self.conv1(x)
      x = self.pool1(x)
      for stage in self.stages:
          x = stage(x)
      x = self.out(x)
      return x
  \<close>
  An \<^verbatim>\<open>nn.Sequential\<close> applies its members in order.
\<close>

fun stem_forward :: "runtime \<Rightarrow> ConvBNACT list \<Rightarrow> tensor \<Rightarrow> error + tensor" where
  "stem_forward rt [] x = Inr x"
| "stem_forward rt (c # cs) x = bind_e (ConvBNACT_forward rt c x) (stem_forward rt cs)"

fun stage_forward :: "runtime \<Rightarrow> block list \<Rightarrow> tensor \<Rightarrow> error + tensor" where
  "stage_forward rt [] x = Inr x"
| "stage_forward rt (b # bs) x = bind_e (block_call rt b x) (stage_forward rt bs)"

fun stages_forward :: "runtime \<Rightarrow> block list list \<Rightarrow> tensor \<Rightarrow> error + tensor" where
  "stages_forward rt [] x = Inr x"
| "stages_forward rt (stage # rest) x = bind_e (stage_forward rt stage x) (stages_forward rt rest)"

definition ResNet_forward :: "runtime \<Rightarrow> ResNet \<Rightarrow> tensor \<Rightarrow> error + tensor" where
  "ResNet_forward rt self x =
     bind_e (stem_forward rt (rn_conv1 self) x) (\<lambda>x1.
     let x2 = max_pool2d rt (rn_pool1 self) x1 in
     bind_e (stages_forward rt (rn_stages self) x2) (\<lambda>x3.
     Inr (max_pool2d rt (rn_out self) x3)))"

text \<open>
  The number of channels the main path of a block produces: the \<^verbatim>\<open>out_channels\<close> of its last
  convolution.
\<close>

definition block_out_channels :: "block \<Rightarrow> int" where
  "block_out_channels b =
     (case b of
        Basic self \<Rightarrow> conv_out_channels (cba_conv (bb_conv1 self))
      | Bottleneck self \<Rightarrow> conv_out_channels (cba_conv (bt_conv2 self)))"

text \<open>The shortcut sub-block a block holds in its attribute \<^verbatim>\<open>shortcut\<close>.\<close>

definition block_shortcut :: "block \<Rightarrow> ShurtCut" where
  "block_shortcut b = (case b of Basic self \<Rightarrow> bb_shortcut self | Bottleneck self \<Rightarrow> bt_shortcut self)"

section \<open>Divisibility rounding: properties\<close>

subsection \<open>Evaluating a rounding\<close>

text \<open>
  For \<open>x\<close> with \<open>2 ^ 52 \<le> \<bar>x\<bar> * 2 ^ k < 2 ^ 53\<close> the last place of the double has weight
  \<open>1 / 2 ^ k\<close>: the rounding is that of \<open>x * 2 ^ k\<close> to an integer.
\<close>

lemma double_exponent_scaled:
  fixes k :: nat
  assumes lo: "2 ^ 52 \<le> \<bar>x\<bar> * 2 ^ k" and hi: "\<bar>x\<bar> * 2 ^ k < 2 ^ 53" and k: "k \<le> 1074"
  shows "double_exponent x = - int k"
proof -
  have pos: "0 < \<bar>x\<bar>"
  proof (rule ccontr)
    assume "\<not> 0 < \<bar>x\<bar>"
    then have "\<bar>x\<bar> * 2 ^ k = 0" by simp
    with lo show False by simp
  qed
  have p1: "2 powr (52 - real k) = 2 ^ 52 / 2 ^ k"
    by (simp add: powr_diff powr_realpow)
  have p2: "2 powr (53 - real k) = 2 ^ 53 / 2 ^ k"
    by (simp add: powr_diff powr_realpow)
  have "(2::real) ^ 52 / 2 ^ k \<le> \<bar>x\<bar>"
    using lo by (simp add: pos_divide_le_eq)
  then have a: "2 powr (52 - real k) \<le> \<bar>x\<bar>"
    by (simp only: p1)
  have "\<bar>x\<bar> < (2::real) ^ 53 / 2 ^ k"
    using hi by (simp add: pos_less_divide_eq)
  then have b: "\<bar>x\<bar> < 2 powr (53 - real k)"
    by (simp only: p2)
  have c: "real_of_int (52 - int k) = 52 - real k" "real_of_int (52 - int k + 1) = 53 - real k"
    by simp_all
  have "\<lfloor>log 2 \<bar>x\<bar>\<rfloor> = 52 - int k"
    using floor_log_eq_powr_iff [of "\<bar>x\<bar>" 2 "52 - int k"] pos a b
    by (simp only: c)
  then show ?thesis
    using k by (simp add: double_exponent_def)
qed

lemma round_double_scaled:
  fixes k :: nat
  assumes "2 ^ 52 \<le> \<bar>x\<bar> * 2 ^ k" and "\<bar>x\<bar> * 2 ^ k < 2 ^ 53" and "k \<le> 1074"
  shows "round_double x = real_of_int (round_even (x * 2 ^ k)) / 2 ^ k"
proof -
  have e: "double_exponent x = - int k"
    using assms by (rule double_exponent_scaled)
  have nz: "x \<noteq> 0" using assms(1) by auto
  have p: "2 powr (- real k) = 1 / 2 ^ k"
    by (simp add: powr_minus powr_realpow divide_inverse)
  show ?thesis
    by (simp add: round_double_def nz e p)
qed

lemma round_double_four: "round_double 4 = 4"
  using round_double_scaled [of 4 50] by (simp add: round_even_def)

lemma round_double_nine_tenths: "round_double (9 / 10) = 8106479329266893 / 2 ^ 53"
  using round_double_scaled [of "9 / 10" 53] by (simp add: round_even_def)

lemma double_41: "round_double (41 / 10) = 2308094809027379 / 2 ^ 49"
  using round_double_scaled [of "41 / 10" 50] by (simp add: round_even_def)

lemma double_89: "round_double (89 / 10) = 5010254585449677 / 2 ^ 49"
  using round_double_scaled [of "89 / 10" 49] by (simp add: round_even_def)

lemma sum_16: "round_double (16 + 4) = 20"
  using round_double_scaled [of "16 + 4" 48] by (simp add: round_even_def)

lemma product_16: "round_double (round_double (9 / 10) * 16) = 8106479329266893 / 2 ^ 49"
  using round_double_scaled [of "8106479329266893 / 2 ^ 53 * 16" 49]
  by (simp add: round_double_nine_tenths round_even_def)

lemma sum_17: "round_double (17 + 4) = 21"
  using round_double_scaled [of "17 + 4" 48] by (simp add: round_even_def)

lemma product_17: "round_double (round_double (9 / 10) * 17) = 4306567143673037 / 2 ^ 48"
  using round_double_scaled [of "8106479329266893 / 2 ^ 53 * 17" 49]
  by (simp add: round_double_nine_tenths round_even_def)

lemma sum_5: "round_double (5 + 4) = 9"
  using round_double_scaled [of "5 + 4" 49] by (simp add: round_even_def)

lemma product_5: "round_double (round_double (9 / 10) * 5) = 9 / 2 ^ 1"
  using round_double_scaled [of "8106479329266893 / 2 ^ 53 * 5" 50]
  by (simp add: round_double_nine_tenths round_even_def)



lemma sum_41: "round_double (round_double (41 / 10) + 4) = 4559894622712627 / 2 ^ 49"
  using round_double_scaled [of "2308094809027379 / 2 ^ 49 + 4" 49] by (simp add: round_even_def double_41)

lemma product_41: "round_double (round_double (9 / 10) * (round_double (41 / 10))) = 8309141312498565 / 2 ^ 51"
  using round_double_scaled [of "8106479329266893 / 2 ^ 53 * (2308094809027379 / 2 ^ 49)" 51]
  by (simp add: round_double_nine_tenths round_even_def double_41)

lemma sum_89: "round_double (round_double (89 / 10) + 4) = 7262054399134925 / 2 ^ 49"
  using round_double_scaled [of "5010254585449677 / 2 ^ 49 + 4" 49] by (simp add: round_even_def double_89)

lemma product_89: "round_double (round_double (9 / 10) * (round_double (89 / 10))) = 4509229126904709 / 2 ^ 49"
  using round_double_scaled [of "8106479329266893 / 2 ^ 53 * (5010254585449677 / 2 ^ 49)" 49]
  by (simp add: round_double_nine_tenths round_even_def double_89)

lemma sum_v0: "round_double (2501999792983609 / 2 ^ 48 + 4) = 3627899699826233 / 2 ^ 48"
  using round_double_scaled [of "2501999792983609 / 2 ^ 48 + 4" 49] by (simp add: round_even_def)

lemma product_v0: "round_double (round_double (9 / 10) * (2501999792983609 / 2 ^ 48)) = 8"
  using round_double_scaled [of "8106479329266893 / 2 ^ 53 * (2501999792983609 / 2 ^ 48)" 49]
  by (simp add: round_double_nine_tenths round_even_def)

lemma double_v0: "round_double (2501999792983609 / 2 ^ 48) = 2501999792983609 / 2 ^ 48"
  using round_double_scaled [of "2501999792983609 / 2 ^ 48" 49] by (simp add: round_even_def)

subsection \<open>The rule\<close>

text \<open>
  \<open>round_to_nearest_multiple v 8\<close> is a multiple of 8 nearest to \<open>v\<close>: no multiple of 8 is
  closer.
\<close>

lemma round_to_nearest_multiple_nearest:
  "\<bar>real_of_int (round_to_nearest_multiple v 8) - v\<bar> \<le> \<bar>real_of_int (8 * k) - v\<bar>"
proof -
  define n where "n = \<lfloor>v / 8 + 1 / 2\<rfloor>"
  have lo: "real_of_int n \<le> v / 8 + 1 / 2" and hi: "v / 8 + 1 / 2 < real_of_int n + 1"
    unfolding n_def by linarith+
  have r: "round_to_nearest_multiple v 8 = 8 * n"
    by (simp add: round_to_nearest_multiple_def n_def)
  consider "k = n" | "k \<le> n - 1" | "n + 1 \<le> k" by linarith
  then show ?thesis
  proof cases
    case 1
    then show ?thesis by (simp add: r)
  next
    case 2
    then have "real_of_int k \<le> real_of_int n - 1" by linarith
    then show ?thesis using lo hi by (simp add: r)
  next
    case 3
    then have "real_of_int n + 1 \<le> real_of_int k" by linarith
    then show ?thesis using lo hi by (simp add: r)
  qed
qed

text \<open>
  The code rounds with \<^verbatim>\<open>int(s) // 8 * 8\<close> for the sum \<open>s\<close>. Where \<open>s\<close> is negative, truncation
  towards zero differs from the floor, but both values are at most 0 and the maximum
  with 8 hides the difference.
\<close>

lemma candidate_eq:
  "max 8 (py_int (v + 4) div 8 * 8) = max 8 (round_to_nearest_multiple v 8)"
proof (cases "0 \<le> v + 4")
  case True
  have "\<lfloor>v + 4\<rfloor> div 8 = \<lfloor>(v + 4) / real_of_int 8\<rfloor>"
    by (rule floor_divide_real_eq_div [symmetric]) simp
  also have "(v + 4) / real_of_int 8 = v / 8 + 1 / 2" by simp
  finally show ?thesis using True
    by (simp add: py_int_def round_to_nearest_multiple_def mult.commute)
next
  case False
  then have "\<lceil>v + 4\<rceil> \<le> 0" unfolding ceiling_le_iff by simp
  then have "\<lceil>v + 4\<rceil> div 8 * 8 \<le> 0" by presburger
  moreover have "\<lfloor>v / 8 + 1 / 2\<rfloor> < 0" using False by (simp add: floor_less_iff)
  ultimately show ?thesis using False
    by (simp add: py_int_def round_to_nearest_multiple_def)
qed

lemma make_divisible_8:
  "make_divisible v 8 None =
     Inr (let candidate = max 8 (py_int (round_double (v + 4)) div 8 * 8)
          in if real_of_int candidate < round_double (round_double (9 / 10) * v)
             then candidate + 8 else candidate)"
  by (simp add: make_divisible_def round_double_four Let_def)


lemma make_divisible_16: "make_divisible 16 8 None = Inr 16"
  by (simp only: make_divisible_8 sum_16 product_16 Let_def) (simp add: py_int_def)

lemma make_divisible_17: "make_divisible 17 8 None = Inr 16"
  by (simp only: make_divisible_8 sum_17 product_17 Let_def) (simp add: py_int_def)

lemma make_divisible_5: "make_divisible 5 8 None = Inr 8"
  by (simp only: make_divisible_8 sum_5 product_5 Let_def) (simp add: py_int_def)


lemma make_divisible_41: "make_divisible (round_double (41 / 10)) 8 None = Inr 8"
  by (simp only: make_divisible_8 sum_41 product_41 Let_def) (simp add: py_int_def)

lemma make_divisible_89: "make_divisible (round_double (89 / 10)) 8 None = Inr 16"
  by (simp only: make_divisible_8 sum_89 product_89 Let_def) (simp add: py_int_def)

lemma make_divisible_v0: "make_divisible (2501999792983609 / 2 ^ 48) 8 None = Inr 8"
  by (simp only: make_divisible_8 sum_v0 product_v0 Let_def) (simp add: py_int_def)

text \<open>
  C2, as stated, at the double \<open>v = 2501999792983609 / 2 ^ 48\<close> (written \<^verbatim>\<open>8.88888888888889\<close>):
  the candidate is 8 and \<open>8 < 0.9 * v\<close> holds of the exact product, so the rule as
  stated gives 16; the double product \<^verbatim>\<open>0.9 * v\<close> is exactly 8, and the code returns 8.
\<close>

theorem make_divisible_rule_counterexample:
  "round_double (2501999792983609 / 2 ^ 48) = 2501999792983609 / 2 ^ 48 \<and>
   max 8 (round_to_nearest_multiple (2501999792983609 / 2 ^ 48) 8) = 8 \<and>
   real_of_int 8 < 0.9 * (2501999792983609 / 2 ^ 48) \<and>
   spec_divisible (2501999792983609 / 2 ^ 48) = 16 \<and>
   round_double (round_double (9 / 10) * (2501999792983609 / 2 ^ 48)) = 8 \<and>
   make_divisible (2501999792983609 / 2 ^ 48) 8 None = Inr 8"
proof -
  have a: "max 8 (round_to_nearest_multiple (2501999792983609 / 2 ^ 48) 8) = 8"
    by (simp add: round_to_nearest_multiple_def)
  have b: "real_of_int 8 < 0.9 * (2501999792983609 / 2 ^ 48)"
    by simp
  have c: "spec_divisible (2501999792983609 / 2 ^ 48) = 16"
    by (simp add: spec_divisible_def round_to_nearest_multiple_def)
  show ?thesis
    using double_v0 a b c product_v0 make_divisible_v0 by (intro conjI)
qed

text \<open>
  C2, amended. With divisor 8 and minimum 8 (the defaults, or passed explicitly), for every
  \<open>v\<close>: let \<open>s\<close> be the double sum \<^verbatim>\<open>v + 4.0\<close> and \<open>p\<close> the double product \<^verbatim>\<open>0.9 * v\<close>. Then
  \<^verbatim>\<open>make_divisible(v)\<close> returns the candidate \<open>max 8 (round_to_nearest_multiple (s - 4) 8)\<close>,
  plus one step of 8 exactly when the candidate is below \<open>p\<close>. Whenever the sum is exact,
  the candidate is \<open>max 8 (round_to_nearest_multiple v 8)\<close>. The rounded value is a nearest
  multiple of 8, and the five values of the specification come out as 16, 16, 8, 8
  and 16 (\<^verbatim>\<open>4.1\<close> and \<^verbatim>\<open>8.9\<close> being the doubles nearest to \<open>41 / 10\<close> and \<open>89 / 10\<close>).
\<close>

theorem make_divisible_rule:
  "make_divisible v 8 None =
     Inr (let s = round_double (v + 4);
              p = round_double (round_double (9 / 10) * v);
              candidate = max 8 (round_to_nearest_multiple (s - 4) 8)
          in if real_of_int candidate < p then candidate + 8 else candidate) \<and>
   (round_double (v + 4) = v + 4 \<longrightarrow>
      make_divisible v 8 None =
        Inr (let candidate = max 8 (round_to_nearest_multiple v 8)
             in if real_of_int candidate < round_double (round_double (9 / 10) * v)
                then candidate + 8 else candidate)) \<and>
   make_divisible v 8 (Some 8) = make_divisible v 8 None \<and>
   (\<forall>k. \<bar>real_of_int (round_to_nearest_multiple v 8) - v\<bar> \<le> \<bar>real_of_int (8 * k) - v\<bar>) \<and>
   make_divisible 16 8 None = Inr 16 \<and>
   make_divisible 17 8 None = Inr 16 \<and>
   make_divisible 5 8 None = Inr 8 \<and>
   make_divisible (round_double 4.1) 8 None = Inr 8 \<and>
   make_divisible (round_double 8.9) 8 None = Inr 16"
proof -
  have c: "max 8 (py_int (round_double (v + 4)) div 8 * 8) =
           max 8 (round_to_nearest_multiple (round_double (v + 4) - 4) 8)"
    using candidate_eq [of "round_double (v + 4) - 4"] by simp
  have general: "make_divisible v 8 None =
     Inr (let s = round_double (v + 4);
              p = round_double (round_double (9 / 10) * v);
              candidate = max 8 (round_to_nearest_multiple (s - 4) 8)
          in if real_of_int candidate < p then candidate + 8 else candidate)"
    by (simp add: make_divisible_8 c Let_def)
  have exact: "round_double (v + 4) = v + 4 \<longrightarrow>
      make_divisible v 8 None =
        Inr (let candidate = max 8 (round_to_nearest_multiple v 8)
             in if real_of_int candidate < round_double (round_double (9 / 10) * v)
                then candidate + 8 else candidate)"
    using general by (simp add: Let_def)
  have explicit: "make_divisible v 8 (Some 8) = make_divisible v 8 None"
    by (simp add: make_divisible_def)
  have near: "\<forall>k. \<bar>real_of_int (round_to_nearest_multiple v 8) - v\<bar> \<le> \<bar>real_of_int (8 * k) - v\<bar>"
    using round_to_nearest_multiple_nearest [of v] by blast
  have d41: "make_divisible (round_double 4.1) 8 None = Inr 8"
    using make_divisible_41 by simp
  have d89: "make_divisible (round_double 8.9) 8 None = Inr 16"
    using make_divisible_89 by simp
  show ?thesis
    using general exact explicit near make_divisible_16 make_divisible_17 make_divisible_5
      d41 d89
    by (intro conjI)
qed

theorem make_divisible_rule_witness:
  "round_double (17 + 4) = 17 + 4 \<and>
   max 8 (round_to_nearest_multiple 17 8) = 16 \<and>
   \<not> real_of_int 16 < round_double (round_double (9 / 10) * 17) \<and>
   make_divisible 17 8 None = Inr 16"
proof -
  have s: "round_double (17 + 4) = 17 + 4"
    using sum_17 by simp
  have m: "max 8 (round_to_nearest_multiple 17 8) = 16"
    by (simp add: round_to_nearest_multiple_def)
  have p: "\<not> real_of_int 16 < round_double (round_double (9 / 10) * 17)"
    by (simp only: product_17) simp
  from make_divisible_rule [of 17, THEN conjunct2, THEN conjunct1, THEN mp, OF s]
  have "make_divisible 17 8 None =
        Inr (let candidate = max 8 (round_to_nearest_multiple 17 8)
             in if real_of_int candidate < round_double (round_double (9 / 10) * 17)
                then candidate + 8 else candidate)" .
  then have "make_divisible 17 8 None = Inr 16"
    using p by (simp only: m Let_def if_False)
  with s m p show ?thesis by (intro conjI)
qed

section \<open>Hard-sigmoid: the threshold chain is the clamp\<close>

text \<open>
  C6. For every slope, offset and input tensor, the forward pass of \<^verbatim>\<open>HardSigmoid\<close> (two
  chained one-sided thresholds on the negated value) is elementwise
  \<open>clamp (slope * x + offset) 0 1\<close>; with the default arguments the slope is 0.2 and the
  offset 0.5. The affine value is the same term on both sides, and the chain only negates
  and compares it.
\<close>

theorem HardSigmoid_forward_is_clamp:
  "HardSigmoid_forward self x = hard_sigmoid_clamp (hs_slope self) (hs_offset self) x \<and>
   HardSigmoid_forward (HardSigmoid_init None None) x = hard_sigmoid_clamp 0.2 0.5 x"
  by (simp add: HardSigmoid_forward_def HardSigmoid_init_def hard_sigmoid_clamp_def
      F_threshold_def tensor_neg_def add_scalar_def scalar_mul_def pointwise_def clamp_def
      Let_def min_def max_def)

section \<open>Construction of the virtual-depth blocks: auxiliary facts\<close>

lemma ShurtCut_init_pair:
  "ShurtCut_init rt cin cout (PairStride sv sh) if_first =
     Inr \<lparr>sc_conv =
       (if cin \<noteq> cout \<or> sv \<noteq> 1
        then Some (if if_first
                   then DirectStride (ConvBNACT_init rt cin cout 1 (PairStride sv sh) 0 1 None)
                   else PoolThenStride (ConvBNACTNew_init rt cin cout 1 (PairStride sv sh) 1 None))
        else if if_first
        then Some (DirectStride (ConvBNACT_init rt cin cout 1 (PairStride sv sh) 0 1 None))
        else None)\<rparr>"
  by (simp add: ShurtCut_init_def Let_def)

lemma block_class_init_pair:
  "\<exists>b. block_class_init cls rt cin cout (PairStride sv sh) f = Inr b \<and>
       block_out_channels b = (case cls of BasicBlockClass \<Rightarrow> cout | BottleneckBlockClass \<Rightarrow> cout * 4)"
  by (cases cls)
     (simp_all add: block_class_init_def BasicBlock_init_def BottleneckBlock_init_def
        ShurtCut_init_pair block_out_channels_def ConvBNACT_init_def Conv2d_init_def Let_def)

lemma block_list_loop_ok:
  assumes "blk < length nf"
  shows "\<exists>sfx built'.
           block_list_loop rt cls nf blk js (c, bl, built) =
             (Inr (if js = [] then c else nf ! blk, bl @ sfx), built') \<and>
           map block_out_channels sfx =
             replicate (length js)
               (case cls of BasicBlockClass \<Rightarrow> nf ! blk | BottleneckBlockClass \<Rightarrow> nf ! blk * 4)"
proof (induction js arbitrary: c bl built)
  case Nil
  show ?case by simp
next
  case (Cons i rest)
  let ?w = "case cls of BasicBlockClass \<Rightarrow> nf ! blk | BottleneckBlockClass \<Rightarrow> nf ! blk * 4"
  define strd where "strd = (if i = 0 \<and> blk \<noteq> 0 then PairStride 2 1 else PairStride 1 1)"
  have "\<exists>sv. strd = PairStride sv 1"
    by (simp add: strd_def)
  then obtain sv where sv: "strd = PairStride sv 1" ..
  obtain b where b: "block_class_init cls rt c (nf ! blk) strd (blk = i \<and> i = 0) = Inr b"
    and w: "block_out_channels b = ?w"
    using block_class_init_pair [of cls rt c "nf ! blk" sv 1] unfolding sv by blast
  have step: "block_list_loop rt cls nf blk (i # rest) (c, bl, built) =
                block_list_loop rt cls nf blk rest (nf ! blk, bl @ [b], built @ [RnBlock b])"
    unfolding block_list_loop.simps Let_def strd_def [symmetric]
    using assms b by (simp add: py_index_def)
  obtain sfx built' where
    r: "block_list_loop rt cls nf blk rest (nf ! blk, bl @ [b], built @ [RnBlock b]) =
          (Inr (if rest = [] then nf ! blk else nf ! blk, (bl @ [b]) @ sfx), built')"
    and m: "map block_out_channels sfx = replicate (length rest) ?w"
    using Cons.IH by blast
  have "block_list_loop rt cls nf blk (i # rest) (c, bl, built) =
          (Inr (nf ! blk, bl @ (b # sfx)), built')"
    using step r by simp
  moreover have "map block_out_channels (b # sfx) = replicate (length (i # rest)) ?w"
    using w m by simp
  ultimately show ?case by (intro exI [of _ "b # sfx"] exI [of _ built']) simp
qed

lemma stages_loop_ok:
  assumes "\<forall>b \<in> set blks. b < length nf"
  shows "\<exists>sfx built'.
           stages_loop rt cls depth nf blks (c, stages, built) =
             (Inr (fold (\<lambda>b a. if depth ! b = 0 then a else nf ! b) blks c, stages @ sfx), built') \<and>
           map (map block_out_channels) sfx =
             map (\<lambda>b. replicate (depth ! b)
                    (case cls of BasicBlockClass \<Rightarrow> nf ! b | BottleneckBlockClass \<Rightarrow> nf ! b * 4)) blks"
  using assms
proof (induction blks arbitrary: c stages built)
  case Nil
  show ?case by simp
next
  case (Cons blk rest)
  then have lt: "blk < length nf" and rest: "\<forall>b \<in> set rest. b < length nf" by simp_all
  let ?w = "\<lambda>b. case cls of BasicBlockClass \<Rightarrow> nf ! b | BottleneckBlockClass \<Rightarrow> nf ! b * 4"
  let ?c' = "if depth ! blk = 0 then c else nf ! blk"
  obtain bl built1 where
    l: "block_list_loop rt cls nf blk [0..<depth ! blk] (c, [], built) = (Inr (?c', bl), built1)"
    and m: "map block_out_channels bl = replicate (depth ! blk) (?w blk)"
    using block_list_loop_ok [OF lt, of rt cls "[0..<depth ! blk]" c "[]" built] by auto
  obtain sfx built' where
    r: "stages_loop rt cls depth nf rest (?c', stages @ [bl], built1) =
          (Inr (fold (\<lambda>b a. if depth ! b = 0 then a else nf ! b) rest ?c', (stages @ [bl]) @ sfx), built')"
    and ms: "map (map block_out_channels) sfx = map (\<lambda>b. replicate (depth ! b) (?w b)) rest"
    using Cons.IH [OF rest] by blast
  have "stages_loop rt cls depth nf (blk # rest) (c, stages, built) =
          (Inr (fold (\<lambda>b a. if depth ! b = 0 then a else nf ! b) (blk # rest) c, stages @ (bl # sfx)), built')"
    using l r by simp
  moreover have "map (map block_out_channels) (bl # sfx) = map (\<lambda>b. replicate (depth ! b) (?w b)) (blk # rest)"
    using m ms by simp
  ultimately show ?case by blast
qed

lemma upt4: "[0..<4] = [0, 1, 2, 3]"
  by (simp add: upt_conv_Cons)

lemma ResNet_init_ok:
  assumes "map_of supported_layers layers = Some (depth, cls)" and "length depth = 4"
    and "\<forall>d \<in> set depth. d \<noteq> 0"
  shows "\<exists>r built. ResNet_init rt c layers = (Inr r, built) \<and> rn_out_channels r = 512 \<and>
           map (map block_out_channels) (rn_stages r) =
             map (\<lambda>b. replicate (depth ! b)
                    (case cls of BasicBlockClass \<Rightarrow> [64, 128, 256, 512] ! b
                     | BottleneckBlockClass \<Rightarrow> [64, 128, 256, 512] ! b * 4)) [0, 1, 2, 3]"
proof -
  let ?nf = "[64, 128, 256, 512 :: int]"
  let ?stem = "[ConvBNACT_init rt c 32 3 (IntStride 1) 1 1 (Some ''relu''),
                ConvBNACT_init rt 32 32 3 (IntStride 1) 1 1 (Some ''relu''),
                ConvBNACT_init rt 32 64 3 (IntStride 1) 1 1 (Some ''relu'')]"
  let ?built = "map RnConv ?stem @ [RnPool \<lparr>mp_kernel_size = 3, mp_stride = 2, mp_padding = 1\<rparr>]"
  have "\<forall>b \<in> set [0, 1, 2, 3 :: nat]. b < length ?nf" by simp
  from stages_loop_ok [OF this, of rt cls depth 64 "[]" ?built]
  obtain sfx built' where
    l: "stages_loop rt cls depth ?nf [0, 1, 2, 3] (64, [], ?built) =
          (Inr (fold (\<lambda>b a. if depth ! b = 0 then a else ?nf ! b) [0, 1, 2, 3] 64, sfx), built')"
    and m: "map (map block_out_channels) sfx =
             map (\<lambda>b. replicate (depth ! b)
                    (case cls of BasicBlockClass \<Rightarrow> ?nf ! b | BottleneckBlockClass \<Rightarrow> ?nf ! b * 4)) [0, 1, 2, 3]"
    by auto
  have "depth ! 3 \<in> set depth" using assms(2) by simp
  then have d3: "depth ! 3 \<noteq> 0" using assms(3) by blast
  have f: "fold (\<lambda>b a. if depth ! b = 0 then a else ?nf ! b) [0, 1, 2, 3] 64 = 512"
    using d3 by simp
  show ?thesis
    using assms(1,2) l m f
    by (simp add: ResNet_init_def Let_def upt4)
qed

subsection \<open>The shortcut of the block at each position\<close>

text \<open>
  The inner loop constructs, at position \<open>k\<close> of stage \<open>blk\<close>, the block
  \<open>block_class(in_ch, num_filters[blk], stride, if_first)\<close> with \<open>in_ch\<close> the incoming channel
  count for \<open>k = 0\<close> and \<open>num_filters[blk]\<close> afterwards, stride \<open>(2, 1)\<close> exactly for \<open>k = 0\<close>
  in a stage other than the first, and \<open>if_first\<close> exactly for \<open>blk = k = 0\<close>; the shortcut
  of that block is constructed from the same channel counts (the output count times 4 in
  a bottleneck block), stride and flag.
\<close>

lemma block_class_init_shortcut:
  assumes "block_class_init cls rt cin cout strd f = Inr b"
  shows "ShurtCut_init rt cin (case cls of BasicBlockClass \<Rightarrow> cout | BottleneckBlockClass \<Rightarrow> cout * 4)
           strd f = Inr (block_shortcut b)"
  using assms
  by (cases cls)
     (auto simp: block_class_init_def BasicBlock_init_def BottleneckBlock_init_def
        block_shortcut_def Let_def split: sum.splits)

lemma block_list_loop_blocks:
  assumes "blk < length nf"
  shows "\<exists>sfx built'.
           block_list_loop rt cls nf blk js (c, bl, built) =
             (Inr (if js = [] then c else nf ! blk, bl @ sfx), built') \<and>
           length sfx = length js \<and>
           (\<forall>k < length js.
              block_class_init cls rt (if k = 0 then c else nf ! blk) (nf ! blk)
                (if js ! k = 0 \<and> blk \<noteq> 0 then PairStride 2 1 else PairStride 1 1)
                (blk = js ! k \<and> js ! k = 0) = Inr (sfx ! k))"
proof (induction js arbitrary: c bl built)
  case Nil
  show ?case by simp
next
  case (Cons i rest)
  define strd where "strd = (if i = 0 \<and> blk \<noteq> 0 then PairStride 2 1 else PairStride 1 1)"
  have "\<exists>sv. strd = PairStride sv 1"
    by (simp add: strd_def)
  then obtain sv where sv: "strd = PairStride sv 1" ..
  obtain b where b: "block_class_init cls rt c (nf ! blk) strd (blk = i \<and> i = 0) = Inr b"
    using block_class_init_pair [of cls rt c "nf ! blk" sv 1] unfolding sv by blast
  have step: "block_list_loop rt cls nf blk (i # rest) (c, bl, built) =
                block_list_loop rt cls nf blk rest (nf ! blk, bl @ [b], built @ [RnBlock b])"
    unfolding block_list_loop.simps Let_def strd_def [symmetric]
    using assms b by (simp add: py_index_def)
  obtain sfx built' where
    r: "block_list_loop rt cls nf blk rest (nf ! blk, bl @ [b], built @ [RnBlock b]) =
          (Inr (if rest = [] then nf ! blk else nf ! blk, (bl @ [b]) @ sfx), built')"
    and len: "length sfx = length rest"
    and each: "\<forall>k < length rest.
              block_class_init cls rt (if k = 0 then nf ! blk else nf ! blk) (nf ! blk)
                (if rest ! k = 0 \<and> blk \<noteq> 0 then PairStride 2 1 else PairStride 1 1)
                (blk = rest ! k \<and> rest ! k = 0) = Inr (sfx ! k)"
    using Cons.IH by blast
  have res: "block_list_loop rt cls nf blk (i # rest) (c, bl, built) =
          (Inr (nf ! blk, bl @ (b # sfx)), built')"
    using step r by simp
  have all: "block_class_init cls rt (if k = 0 then c else nf ! blk) (nf ! blk)
                (if (i # rest) ! k = 0 \<and> blk \<noteq> 0 then PairStride 2 1 else PairStride 1 1)
                (blk = (i # rest) ! k \<and> (i # rest) ! k = 0) = Inr ((b # sfx) ! k)"
    if "k < length (i # rest)" for k
  proof (cases k)
    case 0
    then show ?thesis using b by (simp add: strd_def)
  next
    case (Suc k')
    with that have "k' < length rest" by simp
    with each have "block_class_init cls rt (if k' = 0 then nf ! blk else nf ! blk) (nf ! blk)
                (if rest ! k' = 0 \<and> blk \<noteq> 0 then PairStride 2 1 else PairStride 1 1)
                (blk = rest ! k' \<and> rest ! k' = 0) = Inr (sfx ! k')"
      by blast
    then show ?thesis by (simp add: Suc)
  qed
  show ?case
    by (rule exI [of _ "b # sfx"], rule exI [of _ built'])
       (use res len all in simp)
qed

lemma stages_loop_blocks:
  assumes "\<forall>b \<in> set blks. b < length nf \<and> depth ! b \<noteq> 0"
  shows "\<exists>sfx built'.
           stages_loop rt cls depth nf blks (c, stages, built) =
             (Inr (if blks = [] then c else nf ! last blks, stages @ sfx), built') \<and>
           length sfx = length blks \<and>
           (\<forall>j < length blks. length (sfx ! j) = depth ! (blks ! j) \<and>
              (\<forall>k < depth ! (blks ! j).
                 block_class_init cls rt
                   (if k = 0 then (if j = 0 then c else nf ! (blks ! (j - 1))) else nf ! (blks ! j))
                   (nf ! (blks ! j))
                   (if k = 0 \<and> blks ! j \<noteq> 0 then PairStride 2 1 else PairStride 1 1)
                   (blks ! j = k \<and> k = 0) = Inr (sfx ! j ! k)))"
  using assms
proof (induction blks arbitrary: c stages built)
  case Nil
  show ?case by simp
next
  case (Cons blk rest)
  then have lt: "blk < length nf" and nz: "depth ! blk \<noteq> 0"
    and rest: "\<forall>b \<in> set rest. b < length nf \<and> depth ! b \<noteq> 0"
    by simp_all
  have ne: "[0..<depth ! blk] \<noteq> []" using nz by simp
  from block_list_loop_blocks [OF lt, of rt cls "[0..<depth ! blk]" c "[]" built]
  obtain bl built1 where
    l: "block_list_loop rt cls nf blk [0..<depth ! blk] (c, [], built) =
          (Inr (nf ! blk, bl), built1)"
    and len: "length bl = depth ! blk"
    and each0: "\<forall>k < length [0..<depth ! blk].
              block_class_init cls rt (if k = 0 then c else nf ! blk) (nf ! blk)
                (if [0..<depth ! blk] ! k = 0 \<and> blk \<noteq> 0 then PairStride 2 1 else PairStride 1 1)
                (blk = [0..<depth ! blk] ! k \<and> [0..<depth ! blk] ! k = 0) = Inr (bl ! k)"
    using ne by auto
  have each: "block_class_init cls rt (if k = 0 then c else nf ! blk) (nf ! blk)
                (if k = 0 \<and> blk \<noteq> 0 then PairStride 2 1 else PairStride 1 1)
                (blk = k \<and> k = 0) = Inr (bl ! k)"
    if "k < depth ! blk" for k
  proof -
    from that have "k < length [0..<depth ! blk]" and "[0..<depth ! blk] ! k = k" by simp_all
    with each0 show ?thesis by metis
  qed
  from Cons.IH [OF rest, of "nf ! blk" "stages @ [bl]" built1]
  obtain sfx built' where
    r: "stages_loop rt cls depth nf rest (nf ! blk, stages @ [bl], built1) =
          (Inr (if rest = [] then nf ! blk else nf ! last rest, (stages @ [bl]) @ sfx), built')"
    and lens: "length sfx = length rest"
    and eachs: "\<forall>j < length rest. length (sfx ! j) = depth ! (rest ! j) \<and>
              (\<forall>k < depth ! (rest ! j).
                 block_class_init cls rt
                   (if k = 0 then (if j = 0 then nf ! blk else nf ! (rest ! (j - 1))) else nf ! (rest ! j))
                   (nf ! (rest ! j))
                   (if k = 0 \<and> rest ! j \<noteq> 0 then PairStride 2 1 else PairStride 1 1)
                   (rest ! j = k \<and> k = 0) = Inr (sfx ! j ! k))"
    by blast
  have res: "stages_loop rt cls depth nf (blk # rest) (c, stages, built) =
          (Inr (nf ! last (blk # rest), stages @ (bl # sfx)), built')"
    using l r by simp
  have all: "length ((bl # sfx) ! j) = depth ! ((blk # rest) ! j) \<and>
              (\<forall>k < depth ! ((blk # rest) ! j).
                 block_class_init cls rt
                   (if k = 0 then (if j = 0 then c else nf ! ((blk # rest) ! (j - 1)))
                    else nf ! ((blk # rest) ! j))
                   (nf ! ((blk # rest) ! j))
                   (if k = 0 \<and> (blk # rest) ! j \<noteq> 0 then PairStride 2 1 else PairStride 1 1)
                   ((blk # rest) ! j = k \<and> k = 0) = Inr ((bl # sfx) ! j ! k))"
    if "j < length (blk # rest)" for j
  proof (cases j)
    case 0
    have g0: "length bl = depth ! blk \<and>
              (\<forall>k < depth ! blk.
                 block_class_init cls rt (if k = 0 then c else nf ! blk) (nf ! blk)
                   (if k = 0 \<and> blk \<noteq> 0 then PairStride 2 1 else PairStride 1 1)
                   (blk = k \<and> k = 0) = Inr (bl ! k))"
    proof (intro conjI allI impI)
      show "length bl = depth ! blk" by (rule len)
    next
      fix k assume "k < depth ! blk"
      then show "block_class_init cls rt (if k = 0 then c else nf ! blk) (nf ! blk)
                   (if k = 0 \<and> blk \<noteq> 0 then PairStride 2 1 else PairStride 1 1)
                   (blk = k \<and> k = 0) = Inr (bl ! k)" by (rule each)
    qed
    have t: "((0::nat) = 0) = True" by simp
    show ?thesis unfolding 0 nth_Cons_0 t if_True by (rule g0)
  next
    case (Suc j')
    with that have j': "j' < length rest" by simp
    have prev: "nf ! ((blk # rest) ! (Suc j' - 1)) =
                  (if j' = 0 then nf ! blk else nf ! (rest ! (j' - 1)))"
      by (cases j') simp_all
    have f: "(Suc j' = 0) = False" by simp
    from eachs j' have
      "length (sfx ! j') = depth ! (rest ! j') \<and>
              (\<forall>k < depth ! (rest ! j').
                 block_class_init cls rt
                   (if k = 0 then (if j' = 0 then nf ! blk else nf ! (rest ! (j' - 1))) else nf ! (rest ! j'))
                   (nf ! (rest ! j'))
                   (if k = 0 \<and> rest ! j' \<noteq> 0 then PairStride 2 1 else PairStride 1 1)
                   (rest ! j' = k \<and> k = 0) = Inr (sfx ! j' ! k))"
      by blast
    then show ?thesis
      unfolding Suc prev nth_Cons_Suc f if_False .
  qed
  show ?case
    by (rule exI [of _ "bl # sfx"], rule exI [of _ built'])
       (use res lens all in simp)
qed

lemma supported_layers_depth:
  assumes "map_of supported_layers layers = Some (depth, cls)"
  shows "length depth = 4 \<and> (\<forall>d \<in> set depth. d \<noteq> 0)"
  using assms by (auto simp: supported_layers_def split: if_splits)

lemma ResNet_init_blocks:
  assumes m: "map_of supported_layers layers = Some (depth, cls)"
  shows "\<exists>r built. ResNet_init rt c layers = (Inr r, built) \<and> length (rn_stages r) = 4 \<and>
           (\<forall>blk < 4. length (rn_stages r ! blk) = depth ! blk \<and>
              (\<forall>i < depth ! blk.
                 block_class_init cls rt
                   (if i = 0 then (if blk = 0 then 64 else [64, 128, 256, 512] ! (blk - 1))
                    else [64, 128, 256, 512] ! blk)
                   ([64, 128, 256, 512] ! blk)
                   (if i = 0 \<and> blk \<noteq> 0 then PairStride 2 1 else PairStride 1 1)
                   (blk = 0 \<and> i = 0) = Inr (rn_stages r ! blk ! i)))"
proof -
  let ?nf = "[64, 128, 256, 512 :: int]"
  let ?bs = "[0, 1, 2, 3 :: nat]"
  let ?stem = "[ConvBNACT_init rt c 32 3 (IntStride 1) 1 1 (Some ''relu''),
                ConvBNACT_init rt 32 32 3 (IntStride 1) 1 1 (Some ''relu''),
                ConvBNACT_init rt 32 64 3 (IntStride 1) 1 1 (Some ''relu'')]"
  let ?built = "map RnConv ?stem @ [RnPool \<lparr>mp_kernel_size = 3, mp_stride = 2, mp_padding = 1\<rparr>]"
  from supported_layers_depth [OF m]
  have len: "length depth = 4" and pos: "\<forall>d \<in> set depth. d \<noteq> 0" by simp_all
  have nz: "depth ! b \<noteq> 0" if "b < 4" for b
    using that len pos by (metis nth_mem)
  have pre: "\<forall>b \<in> set [0, 1, 2, 3 :: nat]. b < length ?nf \<and> depth ! b \<noteq> 0"
    using nz by simp
  from stages_loop_blocks [OF pre, of rt cls 64 "[]" ?built]
  obtain sfx built' where
    l0: "stages_loop rt cls depth ?nf ?bs (64, [], ?built) =
           (Inr (if ?bs = [] then 64 else ?nf ! last ?bs, [] @ sfx), built')"
    and lens0: "length sfx = length ?bs"
    and each: "\<forall>j < length ?bs. length (sfx ! j) = depth ! (?bs ! j) \<and>
              (\<forall>k < depth ! (?bs ! j).
                 block_class_init cls rt
                   (if k = 0 then (if j = 0 then 64 else ?nf ! (?bs ! (j - 1)))
                    else ?nf ! (?bs ! j))
                   (?nf ! (?bs ! j))
                   (if k = 0 \<and> ?bs ! j \<noteq> 0 then PairStride 2 1 else PairStride 1 1)
                   (?bs ! j = k \<and> k = 0) = Inr (sfx ! j ! k))"
    by (elim exE conjE) (rule that)
  have l: "stages_loop rt cls depth ?nf ?bs (64, [], ?built) = (Inr (512, sfx), built')"
    using l0 by simp
  have lens: "length sfx = 4" using lens0 by simp
  have idx: "[0, 1, 2, 3 :: nat] ! j = j" if "j < 4" for j
  proof -
    from that consider "j = 0" | "j = 1" | "j = 2" | "j = 3" by linarith
    then show ?thesis by cases simp_all
  qed
  have all: "length (sfx ! blk) = depth ! blk \<and>
              (\<forall>i < depth ! blk.
                 block_class_init cls rt
                   (if i = 0 then (if blk = 0 then 64 else ?nf ! (blk - 1)) else ?nf ! blk)
                   (?nf ! blk)
                   (if i = 0 \<and> blk \<noteq> 0 then PairStride 2 1 else PairStride 1 1)
                   (blk = 0 \<and> i = 0) = Inr (sfx ! blk ! i))"
    if b: "blk < 4" for blk
  proof -
    from b have b': "blk < length [0, 1, 2, 3 :: nat]" by simp
    have i1: "[0, 1, 2, 3 :: nat] ! blk = blk" using b by (rule idx)
    have i2: "blk \<noteq> 0 \<Longrightarrow> [0, 1, 2, 3 :: nat] ! (blk - 1) = blk - 1"
      using b by (intro idx) simp
    from each [rule_format, OF b'] have
      e: "length (sfx ! blk) = depth ! (?bs ! blk) \<and>
              (\<forall>k < depth ! (?bs ! blk).
                 block_class_init cls rt
                   (if k = 0 then (if blk = 0 then 64 else ?nf ! (?bs ! (blk - 1)))
                    else ?nf ! (?bs ! blk))
                   (?nf ! (?bs ! blk))
                   (if k = 0 \<and> ?bs ! blk \<noteq> 0 then PairStride 2 1 else PairStride 1 1)
                   (?bs ! blk = k \<and> k = 0) = Inr (sfx ! blk ! k))"
      .
    have pv: "(if blk = 0 then 64 else ?nf ! (?bs ! (blk - 1))) =
                (if blk = 0 then 64 else ?nf ! (blk - 1))"
      using i2 by simp
    have fl: "(blk = k \<and> k = 0) = (blk = 0 \<and> k = 0)" for k
      by auto
    from e show ?thesis unfolding i1 pv fl .
  qed
  have init: "ResNet_init rt c layers =
          (Inr \<lparr>rn_is_3x3 = True, rn_conv1 = ?stem,
                 rn_pool1 = \<lparr>mp_kernel_size = 3, mp_stride = 2, mp_padding = 1\<rparr>,
                 rn_stages = sfx, rn_out_channels = 512,
                 rn_out = \<lparr>mp_kernel_size = 2, mp_stride = 2, mp_padding = 0\<rparr>\<rparr>,
           built' @ [RnPool \<lparr>mp_kernel_size = 2, mp_stride = 2, mp_padding = 0\<rparr>])"
    using m len l by (simp add: ResNet_init_def Let_def upt4)
  show ?thesis
    by (rule exI [of _ "\<lparr>rn_is_3x3 = True, rn_conv1 = ?stem,
                 rn_pool1 = \<lparr>mp_kernel_size = 3, mp_stride = 2, mp_padding = 1\<rparr>,
                 rn_stages = sfx, rn_out_channels = 512,
                 rn_out = \<lparr>mp_kernel_size = 2, mp_stride = 2, mp_padding = 0\<rparr>\<rparr>"],
        rule exI [of _ "built' @ [RnPool \<lparr>mp_kernel_size = 2, mp_stride = 2, mp_padding = 0\<rparr>]"])
       (use init lens all in simp)
qed

lemma ResNet_init_shortcuts:
  assumes m: "map_of supported_layers layers = Some (depth, cls)"
  shows "\<exists>r built. ResNet_init rt c layers = (Inr r, built) \<and>
           length (rn_stages r) = 4 \<and>
           (\<forall>blk < 4. length (rn_stages r ! blk) = depth ! blk \<and> depth ! blk \<noteq> 0) \<and>
           block_shortcut (rn_stages r ! 0 ! 0) =
             \<lparr>sc_conv = Some (DirectStride
                (ConvBNACT_init rt 64
                   (case cls of BasicBlockClass \<Rightarrow> 64 | BottleneckBlockClass \<Rightarrow> 256)
                   1 (PairStride 1 1) 0 1 None))\<rparr> \<and>
           (\<forall>blk. 0 < blk \<and> blk < 4 \<longrightarrow>
              block_shortcut (rn_stages r ! blk ! 0) =
                \<lparr>sc_conv = Some (PoolThenStride
                   (ConvBNACTNew_init rt ([64, 128, 256, 512] ! (blk - 1))
                      (case cls of BasicBlockClass \<Rightarrow> [64, 128, 256, 512] ! blk
                       | BottleneckBlockClass \<Rightarrow> [64, 128, 256, 512] ! blk * 4)
                      1 (PairStride 2 1) 1 None))\<rparr>) \<and>
           (\<forall>blk i. blk < 4 \<and> 0 < i \<and> i < depth ! blk \<longrightarrow>
              block_shortcut (rn_stages r ! blk ! i) =
                \<lparr>sc_conv =
                   (case cls of
                      BasicBlockClass \<Rightarrow> None
                    | BottleneckBlockClass \<Rightarrow>
                        Some (PoolThenStride
                          (ConvBNACTNew_init rt ([64, 128, 256, 512] ! blk)
                             ([64, 128, 256, 512] ! blk * 4) 1 (PairStride 1 1) 1 None)))\<rparr>)"
proof -
  let ?nf = "[64, 128, 256, 512 :: int]"
  from supported_layers_depth [OF m]
  have len: "length depth = 4" and pos: "\<forall>d \<in> set depth. d \<noteq> 0" by simp_all
  have nz: "depth ! b \<noteq> 0" if "b < 4" for b
    using that len pos by (metis nth_mem)
  from ResNet_init_blocks [OF m, of rt c]
  obtain r built where i: "ResNet_init rt c layers = (Inr r, built)"
    and l4: "length (rn_stages r) = 4"
    and each: "\<forall>blk < 4. length (rn_stages r ! blk) = depth ! blk \<and>
              (\<forall>i < depth ! blk.
                 block_class_init cls rt
                   (if i = 0 then (if blk = 0 then 64 else ?nf ! (blk - 1)) else ?nf ! blk)
                   (?nf ! blk)
                   (if i = 0 \<and> blk \<noteq> 0 then PairStride 2 1 else PairStride 1 1)
                   (blk = 0 \<and> i = 0) = Inr (rn_stages r ! blk ! i))"
    by (elim exE conjE) (rule that)
  have lens: "\<forall>blk < 4. length (rn_stages r ! blk) = depth ! blk \<and> depth ! blk \<noteq> 0"
    using each nz by simp
  have sc: "ShurtCut_init rt
              (if i = 0 then (if blk = 0 then 64 else ?nf ! (blk - 1)) else ?nf ! blk)
              (case cls of BasicBlockClass \<Rightarrow> ?nf ! blk | BottleneckBlockClass \<Rightarrow> ?nf ! blk * 4)
              (if i = 0 \<and> blk \<noteq> 0 then PairStride 2 1 else PairStride 1 1)
              (blk = 0 \<and> i = 0) = Inr (block_shortcut (rn_stages r ! blk ! i))"
    if b: "blk < 4" and k: "i < depth ! blk" for blk i
    by (rule block_class_init_shortcut)
       (rule each [rule_format, OF b, THEN conjunct2, rule_format, OF k])
  have first: "block_shortcut (rn_stages r ! 0 ! 0) =
             \<lparr>sc_conv = Some (DirectStride
                (ConvBNACT_init rt 64
                   (case cls of BasicBlockClass \<Rightarrow> 64 | BottleneckBlockClass \<Rightarrow> 256)
                   1 (PairStride 1 1) 0 1 None))\<rparr>"
  proof -
    have "0 < depth ! 0" using nz [of 0] by simp
    from sc [of 0 0, OF _ this] show ?thesis
      by (cases cls) (simp_all add: ShurtCut_init_pair)
  qed
  have heads: "block_shortcut (rn_stages r ! blk ! 0) =
                \<lparr>sc_conv = Some (PoolThenStride
                   (ConvBNACTNew_init rt (?nf ! (blk - 1))
                      (case cls of BasicBlockClass \<Rightarrow> ?nf ! blk
                       | BottleneckBlockClass \<Rightarrow> ?nf ! blk * 4)
                      1 (PairStride 2 1) 1 None))\<rparr>"
    if "0 < blk \<and> blk < 4" for blk
  proof -
    from that have b: "blk < 4" and p: "blk \<noteq> 0" by simp_all
    have "0 < depth ! blk" using nz [OF b] by simp
    from sc [OF b this] p show ?thesis
      by (simp add: ShurtCut_init_pair)
  qed
  have tails: "block_shortcut (rn_stages r ! blk ! i) =
                \<lparr>sc_conv =
                   (case cls of
                      BasicBlockClass \<Rightarrow> None
                    | BottleneckBlockClass \<Rightarrow>
                        Some (PoolThenStride
                          (ConvBNACTNew_init rt (?nf ! blk) (?nf ! blk * 4) 1 (PairStride 1 1) 1 None)))\<rparr>"
    if "blk < 4 \<and> 0 < i \<and> i < depth ! blk" for blk i
  proof -
    from that have b: "blk < 4" and p: "i \<noteq> 0" and k: "i < depth ! blk" by simp_all
    from b consider "blk = 0" | "blk = 1" | "blk = 2" | "blk = 3" by linarith
    then have q: "?nf ! blk \<noteq> ?nf ! blk * 4" by cases simp_all
    from sc [OF b k] p q show ?thesis
      by (cases cls) (simp_all add: ShurtCut_init_pair)
  qed
  show ?thesis
    by (rule exI [of _ r], rule exI [of _ built]) (use i l4 lens first heads tails in blast)
qed

subsection \<open>A basic block constructed as the first one\<close>

text \<open>
  A shortcut constructed with \<open>if_first\<close> true holds the direct-stride unit, and the
  forward pass of a basic block constructed with \<open>if_first\<close> true adds the normalised
  convolution of the input to the main path.
\<close>

lemma ShurtCut_init_first:
  assumes "ShurtCut_init rt cin cout strd True = Inr s"
  shows "s = \<lparr>sc_conv = Some (DirectStride (ConvBNACT_init rt cin cout 1 strd 0 1 None))\<rparr>"
  using assms by (cases strd) (auto simp: ShurtCut_init_def Let_def split: if_splits)

lemma BasicBlock_forward_first:
  assumes "BasicBlock_init rt cin cout strd True = Inr bb"
  shows "BasicBlock_forward rt bb x =
           Inr (F_relu (tensor_add rt
               (batch_norm rt (BatchNorm2d_init rt cout)
                  (conv2d rt (Conv2d_init rt cout cout 3 (IntStride 1) 1 1 False)
                     (F_relu (batch_norm rt (BatchNorm2d_init rt cout)
                        (conv2d rt (Conv2d_init rt cin cout 3 strd 1 1 False) x)))))
               (batch_norm rt (BatchNorm2d_init rt cout)
                  (conv2d rt (Conv2d_init rt cin cout 1 strd 0 1 False) x))))"
proof -
  from assms obtain s where s: "ShurtCut_init rt cin cout strd True = Inr s"
    and bb: "bb = \<lparr>bb_conv0 = ConvBNACT_init rt cin cout 3 strd 1 1 (Some ''relu''),
                   bb_conv1 = ConvBNACT_init rt cout cout 3 (IntStride 1) 1 1 None,
                   bb_shortcut = s\<rparr>"
    by (auto simp: BasicBlock_init_def Let_def split: sum.splits)
  note d = ShurtCut_init_first [OF s]
  show ?thesis
    by (simp add: bb d BasicBlock_forward_def bind_e_def ConvBNACT_forward_def
          ConvBNACT_init_def ShurtCut_forward_def act_forward_def)
qed

lemma block_call_Basic:
  "block_call rt (Basic bb) x = BasicBlock_forward rt bb x"
  by (simp add: block_call_def Module_call_def BasicBlock_methods_def)

section \<open>Weight import of one normalized-convolution unit\<close>

text \<open>
  The five lookups come before the call of \<^verbatim>\<open>load_state_dict\<close>: the first absent key ends
  the method with the unit untouched.
\<close>

lemma load_3rd_first_missing:
  assumes "find (\<lambda>j. state j = None) (required_keys name_prefix) = Some k'"
  shows "ConvBNACT_load_3rd_state_dict rt ''paddle'' state name_prefix self =
           (Some (KeyError k'), self)"
  using assms
  by (cases "state (name_prefix @ ''_weights'')";
      cases "state (name_prefix @ ''_bn_scale'')";
      cases "state (name_prefix @ ''_bn_offset'')";
      cases "state (name_prefix @ ''_bn_mean'')";
      cases "state (name_prefix @ ''_bn_variance'')";
      simp add: ConvBNACT_load_3rd_state_dict_def required_keys_def)

lemma find_Some_member: "find P xs = Some x \<Longrightarrow> x \<in> set xs \<and> P x"
  by (induction xs) (auto split: if_splits)

text \<open>
  C3. For the toolkit tag \<^verbatim>\<open>'paddle'\<close>: if one of the five required keys of a unit is absent
  from the foreign map, the import of that unit raises \<^verbatim>\<open>KeyError\<close> carrying an absent
  required key (the first one in the order of the assignments; the absent key itself when
  it is the only one), and the unit the call leaves behind is the unit it was given:
  no parameter and no running statistic has changed.
\<close>

theorem load_3rd_state_dict_missing_key:
  assumes "k \<in> set (required_keys name_prefix)" and "state k = None"
  shows "\<exists>k'. find (\<lambda>j. state j = None) (required_keys name_prefix) = Some k' \<and>
              k' \<in> set (required_keys name_prefix) \<and> state k' = None \<and>
              ((\<forall>j \<in> set (required_keys name_prefix). j \<noteq> k \<longrightarrow> state j \<noteq> None) \<longrightarrow> k' = k) \<and>
              ConvBNACT_load_3rd_state_dict rt ''paddle'' state name_prefix self =
                (Some (KeyError k'), self)"
proof -
  have "find (\<lambda>j. state j = None) (required_keys name_prefix) \<noteq> None"
    using assms by (simp add: find_None_iff) blast
  then obtain k' where f: "find (\<lambda>j. state j = None) (required_keys name_prefix) = Some k'"
    by blast
  from find_Some_member [OF f]
  have in_set: "k' \<in> set (required_keys name_prefix)" and absent: "state k' = None"
    by simp_all
  have only: "(\<forall>j \<in> set (required_keys name_prefix). j \<noteq> k \<longrightarrow> state j \<noteq> None) \<longrightarrow> k' = k"
    using in_set absent by blast
  show ?thesis
    using f in_set absent only load_3rd_first_missing [OF f, of rt self] by blast
qed

theorem load_3rd_state_dict_missing_key_witness:
  "\<forall>rt self.
     ConvBNACT_load_3rd_state_dict rt ''paddle''
       [''conv1_weights'' \<mapsto> \<lparr>shape = [1], elems = [1]\<rparr>,
        ''conv1_bn_scale'' \<mapsto> \<lparr>shape = [1], elems = [1]\<rparr>,
        ''conv1_bn_offset'' \<mapsto> \<lparr>shape = [1], elems = [0]\<rparr>,
        ''conv1_bn_variance'' \<mapsto> \<lparr>shape = [1], elems = [1]\<rparr>]
       ''conv1'' self = (Some (KeyError ''conv1_bn_mean''), self)"
proof (intro allI)
  fix rt self
  let ?state = "[''conv1_weights'' \<mapsto> \<lparr>shape = [1], elems = [1::real]\<rparr>,
        ''conv1_bn_scale'' \<mapsto> \<lparr>shape = [1], elems = [1]\<rparr>,
        ''conv1_bn_offset'' \<mapsto> \<lparr>shape = [1], elems = [0]\<rparr>,
        ''conv1_bn_variance'' \<mapsto> \<lparr>shape = [1], elems = [1]\<rparr>]"
  have a: "''conv1_bn_mean'' \<in> set (required_keys ''conv1'')"
    by (simp add: required_keys_def)
  have b: "?state ''conv1_bn_mean'' = None" by simp
  have c: "find (\<lambda>j. ?state j = None) (required_keys ''conv1'') = Some ''conv1_bn_mean''"
    by (simp add: required_keys_def)
  show "ConvBNACT_load_3rd_state_dict rt ''paddle'' ?state ''conv1'' self =
          (Some (KeyError ''conv1_bn_mean''), self)"
    using load_3rd_state_dict_missing_key [of "''conv1_bn_mean''" "''conv1''" ?state rt self] a b c
    by auto
qed

section \<open>The shortcut sub-block\<close>

text \<open>
  C5, as stated, at the stride \<open>(1, 2)\<close> with 64 channels in and out and \<open>if_first\<close> false:
  the stride is not 1, so the statement requires a projection; the code tests the vertical
  component \<^verbatim>\<open>stride[0]\<close> only, holds no unit and returns its input.
\<close>

theorem ShurtCut_stride_counterexample:
  "\<forall>rt x. PairStride 1 2 \<noteq> PairStride 1 1 \<and> PairStride 1 2 \<noteq> IntStride 1 \<and>
     ShurtCut_init rt 64 64 (PairStride 1 2) False = Inr \<lparr>sc_conv = None\<rparr> \<and>
     ShurtCut_forward rt \<lparr>sc_conv = None\<rparr> x = Inr x"
  by (simp add: ShurtCut_init_pair ShurtCut_forward_def)

text \<open>
  C5, amended. For a shortcut sub-block with a pair stride: when the channel counts differ
  or the vertical component \<^verbatim>\<open>stride[0]\<close> of the stride is not 1 (for a horizontal component
  1, as in every stride the assembler passes, this is the same as the stride not being
  \<open>(1, 1)\<close>), the shortcut holds a projection: the direct-stride unit \<^verbatim>\<open>ConvBNACT\<close> exactly
  when \<open>if_first\<close> holds, the pool-then-stride unit \<^verbatim>\<open>ConvBNACTNew\<close> otherwise. Both have
  kernel size 1 and no activation; the forward pass of the first convolves at the given
  stride and normalises, that of the second average-pools at the given stride, convolves
  at stride 1 and normalises. When the channel counts are equal, the vertical component is
  1 and \<open>if_first\<close> is false, the shortcut holds no unit and its forward pass returns its
  input.

  In the assembled backbone, for each of the six supported depths, \<open>if_first\<close> holds of the
  first block of the first stage and of no other: that block's shortcut is the
  direct-stride unit from 64 channels at stride \<open>(1, 1)\<close>; the first block of each later
  stage has the pool-then-stride unit at stride \<open>(2, 1)\<close>; every later block of a stage has
  no unit when it is a basic block (equal channel counts) and the pool-then-stride unit at
  stride \<open>(1, 1)\<close> when it is a bottleneck block (channel count times 4).
\<close>

theorem ShurtCut_decision:
  "(cin \<noteq> cout \<longrightarrow>
      ShurtCut_init rt cin cout strd if_first =
        Inr \<lparr>sc_conv = Some (if if_first
                 then DirectStride (ConvBNACT_init rt cin cout 1 strd 0 1 None)
                 else PoolThenStride (ConvBNACTNew_init rt cin cout 1 strd 1 None))\<rparr>) \<and>
   (sv \<noteq> 1 \<longrightarrow>
      ShurtCut_init rt cin cout (PairStride sv sh) if_first =
        Inr \<lparr>sc_conv = Some (if if_first
                 then DirectStride (ConvBNACT_init rt cin cout 1 (PairStride sv sh) 0 1 None)
                 else PoolThenStride (ConvBNACTNew_init rt cin cout 1 (PairStride sv sh) 1 None))\<rparr>) \<and>
   (cin = cout \<and> sv = 1 \<and> \<not> if_first \<longrightarrow>
      ShurtCut_init rt cin cout (PairStride sv sh) if_first = Inr \<lparr>sc_conv = None\<rparr> \<and>
      ShurtCut_forward rt \<lparr>sc_conv = None\<rparr> x = Inr x) \<and>
   (sh = 1 \<longrightarrow> (sv \<noteq> 1) = (PairStride sv sh \<noteq> PairStride 1 1)) \<and>
   conv_kernel_size (cba_conv (ConvBNACT_init rt cin cout 1 strd 0 1 None)) = 1 \<and>
   conv_stride (cba_conv (ConvBNACT_init rt cin cout 1 strd 0 1 None)) = strd \<and>
   cba_act (ConvBNACT_init rt cin cout 1 strd 0 1 None) = Assigned None \<and>
   conv_kernel_size (cbn_conv (ConvBNACTNew_init rt cin cout 1 strd 1 None)) = 1 \<and>
   ap_stride (cbn_pool (ConvBNACTNew_init rt cin cout 1 strd 1 None)) = strd \<and>
   conv_stride (cbn_conv (ConvBNACTNew_init rt cin cout 1 strd 1 None)) = IntStride 1 \<and>
   cbn_act (ConvBNACTNew_init rt cin cout 1 strd 1 None) = None \<and>
   ShurtCut_forward rt
     \<lparr>sc_conv = Some (DirectStride (ConvBNACT_init rt cin cout 1 strd 0 1 None))\<rparr> x =
     Inr (batch_norm rt (BatchNorm2d_init rt cout)
            (conv2d rt (Conv2d_init rt cin cout 1 strd 0 1 False) x)) \<and>
   ShurtCut_forward rt
     \<lparr>sc_conv = Some (PoolThenStride (ConvBNACTNew_init rt cin cout 1 strd 1 None))\<rparr> x =
     Inr (batch_norm rt (BatchNorm2d_init rt cout)
            (conv2d rt (Conv2d_init rt cin cout 1 (IntStride 1) 0 1 False)
               (avg_pool2d rt
                  \<lparr>ap_kernel_size = strd, ap_stride = strd, ap_padding = 0, ap_ceil_mode = True\<rparr>
                  x))) \<and>
   (map_of supported_layers layers = Some (depth, cls) \<longrightarrow>
      (\<exists>r built. ResNet_init rt c layers = (Inr r, built) \<and>
           length (rn_stages r) = 4 \<and>
           (\<forall>blk < 4. length (rn_stages r ! blk) = depth ! blk \<and> depth ! blk \<noteq> 0) \<and>
           block_shortcut (rn_stages r ! 0 ! 0) =
             \<lparr>sc_conv = Some (DirectStride
                (ConvBNACT_init rt 64
                   (case cls of BasicBlockClass \<Rightarrow> 64 | BottleneckBlockClass \<Rightarrow> 256)
                   1 (PairStride 1 1) 0 1 None))\<rparr> \<and>
           (\<forall>blk. 0 < blk \<and> blk < 4 \<longrightarrow>
              block_shortcut (rn_stages r ! blk ! 0) =
                \<lparr>sc_conv = Some (PoolThenStride
                   (ConvBNACTNew_init rt ([64, 128, 256, 512] ! (blk - 1))
                      (case cls of BasicBlockClass \<Rightarrow> [64, 128, 256, 512] ! blk
                       | BottleneckBlockClass \<Rightarrow> [64, 128, 256, 512] ! blk * 4)
                      1 (PairStride 2 1) 1 None))\<rparr>) \<and>
           (\<forall>blk i. blk < 4 \<and> 0 < i \<and> i < depth ! blk \<longrightarrow>
              block_shortcut (rn_stages r ! blk ! i) =
                \<lparr>sc_conv =
                   (case cls of
                      BasicBlockClass \<Rightarrow> None
                    | BottleneckBlockClass \<Rightarrow>
                        Some (PoolThenStride
                          (ConvBNACTNew_init rt ([64, 128, 256, 512] ! blk)
                             ([64, 128, 256, 512] ! blk * 4) 1 (PairStride 1 1) 1 None)))\<rparr>)))"
proof -
  have a: "cin \<noteq> cout \<longrightarrow>
      ShurtCut_init rt cin cout strd if_first =
        Inr \<lparr>sc_conv = Some (if if_first
                 then DirectStride (ConvBNACT_init rt cin cout 1 strd 0 1 None)
                 else PoolThenStride (ConvBNACTNew_init rt cin cout 1 strd 1 None))\<rparr>"
    by (simp add: ShurtCut_init_def Let_def)
  have b: "sv \<noteq> 1 \<longrightarrow>
      ShurtCut_init rt cin cout (PairStride sv sh) if_first =
        Inr \<lparr>sc_conv = Some (if if_first
                 then DirectStride (ConvBNACT_init rt cin cout 1 (PairStride sv sh) 0 1 None)
                 else PoolThenStride (ConvBNACTNew_init rt cin cout 1 (PairStride sv sh) 1 None))\<rparr>"
    by (simp add: ShurtCut_init_pair)
  have c: "cin = cout \<and> sv = 1 \<and> \<not> if_first \<longrightarrow>
      ShurtCut_init rt cin cout (PairStride sv sh) if_first = Inr \<lparr>sc_conv = None\<rparr> \<and>
      ShurtCut_forward rt \<lparr>sc_conv = None\<rparr> x = Inr x"
    by (simp add: ShurtCut_init_pair ShurtCut_forward_def)
  have d: "sh = 1 \<longrightarrow> (sv \<noteq> 1) = (PairStride sv sh \<noteq> PairStride 1 1)"
    by simp
  have e: "conv_kernel_size (cba_conv (ConvBNACT_init rt cin cout 1 strd 0 1 None)) = 1"
    "conv_stride (cba_conv (ConvBNACT_init rt cin cout 1 strd 0 1 None)) = strd"
    "cba_act (ConvBNACT_init rt cin cout 1 strd 0 1 None) = Assigned None"
    by (simp_all add: ConvBNACT_init_def Conv2d_init_def)
  have f: "conv_kernel_size (cbn_conv (ConvBNACTNew_init rt cin cout 1 strd 1 None)) = 1"
    "ap_stride (cbn_pool (ConvBNACTNew_init rt cin cout 1 strd 1 None)) = strd"
    "conv_stride (cbn_conv (ConvBNACTNew_init rt cin cout 1 strd 1 None)) = IntStride 1"
    "cbn_act (ConvBNACTNew_init rt cin cout 1 strd 1 None) = None"
    by (simp_all add: ConvBNACTNew_init_def Conv2d_init_def)
  have g: "ShurtCut_forward rt
     \<lparr>sc_conv = Some (DirectStride (ConvBNACT_init rt cin cout 1 strd 0 1 None))\<rparr> x =
     Inr (batch_norm rt (BatchNorm2d_init rt cout)
            (conv2d rt (Conv2d_init rt cin cout 1 strd 0 1 False) x))"
    by (simp add: ShurtCut_forward_def ConvBNACT_forward_def ConvBNACT_init_def)
  have h: "ShurtCut_forward rt
     \<lparr>sc_conv = Some (PoolThenStride (ConvBNACTNew_init rt cin cout 1 strd 1 None))\<rparr> x =
     Inr (batch_norm rt (BatchNorm2d_init rt cout)
            (conv2d rt (Conv2d_init rt cin cout 1 (IntStride 1) 0 1 False)
               (avg_pool2d rt
                  \<lparr>ap_kernel_size = strd, ap_stride = strd, ap_padding = 0, ap_ceil_mode = True\<rparr>
                  x)))"
    by (simp add: ShurtCut_forward_def ConvBNACTNew_forward_def ConvBNACTNew_init_def)
  note p = ResNet_init_shortcuts [of layers depth cls rt c, THEN impI]
  show ?thesis
    using a b c d e f g h p by (intro conjI)
qed

theorem ShurtCut_decision_witness:
  "\<forall>rt x c.
     ShurtCut_init rt 64 256 (PairStride 1 1) True =
       Inr \<lparr>sc_conv = Some (DirectStride (ConvBNACT_init rt 64 256 1 (PairStride 1 1) 0 1 None))\<rparr> \<and>
     ShurtCut_init rt 64 128 (PairStride 2 1) False =
       Inr \<lparr>sc_conv = Some (PoolThenStride (ConvBNACTNew_init rt 64 128 1 (PairStride 2 1) 1 None))\<rparr> \<and>
     ShurtCut_init rt 128 128 (PairStride 2 1) False =
       Inr \<lparr>sc_conv = Some (PoolThenStride (ConvBNACTNew_init rt 128 128 1 (PairStride 2 1) 1 None))\<rparr> \<and>
     ShurtCut_init rt 64 64 (PairStride 1 1) False = Inr \<lparr>sc_conv = None\<rparr> \<and>
     ShurtCut_forward rt \<lparr>sc_conv = None\<rparr> x = Inr x \<and>
     (\<exists>r built. ResNet_init rt c 18 = (Inr r, built) \<and>
        length (rn_stages r ! 0) = 2 \<and>
        block_shortcut (rn_stages r ! 0 ! 0) =
          \<lparr>sc_conv = Some (DirectStride (ConvBNACT_init rt 64 64 1 (PairStride 1 1) 0 1 None))\<rparr> \<and>
        block_shortcut (rn_stages r ! 0 ! 1) = \<lparr>sc_conv = None\<rparr> \<and>
        block_shortcut (rn_stages r ! 1 ! 0) =
          \<lparr>sc_conv = Some (PoolThenStride
                             (ConvBNACTNew_init rt 64 128 1 (PairStride 2 1) 1 None))\<rparr>) \<and>
     (\<exists>r built. ResNet_init rt c 50 = (Inr r, built) \<and>
        block_shortcut (rn_stages r ! 0 ! 0) =
          \<lparr>sc_conv = Some (DirectStride (ConvBNACT_init rt 64 256 1 (PairStride 1 1) 0 1 None))\<rparr> \<and>
        block_shortcut (rn_stages r ! 0 ! 1) =
          \<lparr>sc_conv = Some (PoolThenStride
                             (ConvBNACTNew_init rt 64 256 1 (PairStride 1 1) 1 None))\<rparr>)"
proof (intro allI conjI)
  fix rt x c
  show "ShurtCut_init rt 64 256 (PairStride 1 1) True =
       Inr \<lparr>sc_conv = Some (DirectStride (ConvBNACT_init rt 64 256 1 (PairStride 1 1) 0 1 None))\<rparr>"
    using ShurtCut_decision [where cin = 64 and cout = 256 and rt = rt
        and strd = "PairStride 1 1" and if_first = True] by simp
  show "ShurtCut_init rt 64 128 (PairStride 2 1) False =
       Inr \<lparr>sc_conv = Some (PoolThenStride (ConvBNACTNew_init rt 64 128 1 (PairStride 2 1) 1 None))\<rparr>"
    using ShurtCut_decision [where cin = 64 and cout = 128 and rt = rt
        and strd = "PairStride 2 1" and if_first = False] by simp
  show "ShurtCut_init rt 128 128 (PairStride 2 1) False =
       Inr \<lparr>sc_conv = Some (PoolThenStride (ConvBNACTNew_init rt 128 128 1 (PairStride 2 1) 1 None))\<rparr>"
    using ShurtCut_decision [where cin = 128 and cout = 128 and rt = rt
        and if_first = False and sv = 2 and sh = 1] by simp
  show "ShurtCut_init rt 64 64 (PairStride 1 1) False = Inr \<lparr>sc_conv = None\<rparr>"
    using ShurtCut_decision [where cin = 64 and cout = 64 and rt = rt
        and if_first = False and sv = 1 and sh = 1] by simp
  show "ShurtCut_forward rt \<lparr>sc_conv = None\<rparr> x = Inr x"
    using ShurtCut_decision [where cin = 64 and cout = 64 and rt = rt
        and if_first = False and sv = 1 and sh = 1 and x = x] by simp
  show "\<exists>r built. ResNet_init rt c 18 = (Inr r, built) \<and>
        length (rn_stages r ! 0) = 2 \<and>
        block_shortcut (rn_stages r ! 0 ! 0) =
          \<lparr>sc_conv = Some (DirectStride (ConvBNACT_init rt 64 64 1 (PairStride 1 1) 0 1 None))\<rparr> \<and>
        block_shortcut (rn_stages r ! 0 ! 1) = \<lparr>sc_conv = None\<rparr> \<and>
        block_shortcut (rn_stages r ! 1 ! 0) =
          \<lparr>sc_conv = Some (PoolThenStride
                             (ConvBNACTNew_init rt 64 128 1 (PairStride 2 1) 1 None))\<rparr>"
  proof -
    have m: "map_of supported_layers 18 = Some ([2, 2, 2, 2], BasicBlockClass)"
      by (simp add: supported_layers_def)
    from ShurtCut_decision [where rt = rt and c = c and layers = 18
        and depth = "[2, 2, 2, 2]" and cls = BasicBlockClass,
        THEN conjunct2, THEN conjunct2, THEN conjunct2, THEN conjunct2, THEN conjunct2, THEN conjunct2, THEN conjunct2, THEN conjunct2, THEN conjunct2, THEN conjunct2, THEN conjunct2, THEN conjunct2, THEN conjunct2, THEN mp, OF m]
    obtain r built where i: "ResNet_init rt c 18 = (Inr r, built)"
      and l: "\<forall>blk < 4. length (rn_stages r ! blk) = [2, 2, 2, 2] ! blk \<and> [2, 2, 2, 2 :: nat] ! blk \<noteq> 0"
      and first: "block_shortcut (rn_stages r ! 0 ! 0) =
             \<lparr>sc_conv = Some (DirectStride
                (ConvBNACT_init rt 64
                   (case BasicBlockClass of BasicBlockClass \<Rightarrow> 64 | BottleneckBlockClass \<Rightarrow> 256)
                   1 (PairStride 1 1) 0 1 None))\<rparr>"
      and heads: "\<forall>blk. 0 < blk \<and> blk < 4 \<longrightarrow>
              block_shortcut (rn_stages r ! blk ! 0) =
                \<lparr>sc_conv = Some (PoolThenStride
                   (ConvBNACTNew_init rt ([64, 128, 256, 512] ! (blk - 1))
                      (case BasicBlockClass of BasicBlockClass \<Rightarrow> [64, 128, 256, 512] ! blk
                       | BottleneckBlockClass \<Rightarrow> [64, 128, 256, 512] ! blk * 4)
                      1 (PairStride 2 1) 1 None))\<rparr>"
      and tails: "\<forall>blk i. blk < 4 \<and> 0 < i \<and> i < [2, 2, 2, 2] ! blk \<longrightarrow>
              block_shortcut (rn_stages r ! blk ! i) =
                \<lparr>sc_conv =
                   (case BasicBlockClass of
                      BasicBlockClass \<Rightarrow> None
                    | BottleneckBlockClass \<Rightarrow>
                        Some (PoolThenStride
                          (ConvBNACTNew_init rt ([64, 128, 256, 512] ! blk)
                             ([64, 128, 256, 512] ! blk * 4) 1 (PairStride 1 1) 1 None)))\<rparr>"
      by (elim exE conjE) (rule that)
    have l0: "length (rn_stages r ! 0) = 2" using l [rule_format, of 0] by simp
    have s00: "block_shortcut (rn_stages r ! 0 ! 0) =
          \<lparr>sc_conv = Some (DirectStride (ConvBNACT_init rt 64 64 1 (PairStride 1 1) 0 1 None))\<rparr>"
      using first by simp
    have s01: "block_shortcut (rn_stages r ! 0 ! 1) = \<lparr>sc_conv = None\<rparr>"
      using tails [rule_format, of 0 1] by simp
    have s10: "block_shortcut (rn_stages r ! 1 ! 0) =
          \<lparr>sc_conv = Some (PoolThenStride
                             (ConvBNACTNew_init rt 64 128 1 (PairStride 2 1) 1 None))\<rparr>"
      using heads [rule_format, of 1] by simp
    show ?thesis
      by (rule exI [of _ r], rule exI [of _ built]) (simp only: i l0 s00 s01 s10 simp_thms)
  qed
  show "\<exists>r built. ResNet_init rt c 50 = (Inr r, built) \<and>
        block_shortcut (rn_stages r ! 0 ! 0) =
          \<lparr>sc_conv = Some (DirectStride (ConvBNACT_init rt 64 256 1 (PairStride 1 1) 0 1 None))\<rparr> \<and>
        block_shortcut (rn_stages r ! 0 ! 1) =
          \<lparr>sc_conv = Some (PoolThenStride
                             (ConvBNACTNew_init rt 64 256 1 (PairStride 1 1) 1 None))\<rparr>"
  proof -
    have m: "map_of supported_layers 50 = Some ([3, 4, 6, 3], BottleneckBlockClass)"
      by (simp add: supported_layers_def)
    from ShurtCut_decision [where rt = rt and c = c and layers = 50
        and depth = "[3, 4, 6, 3]" and cls = BottleneckBlockClass,
        THEN conjunct2, THEN conjunct2, THEN conjunct2, THEN conjunct2, THEN conjunct2, THEN conjunct2, THEN conjunct2, THEN conjunct2, THEN conjunct2, THEN conjunct2, THEN conjunct2, THEN conjunct2, THEN conjunct2, THEN mp, OF m]
    obtain r built where i: "ResNet_init rt c 50 = (Inr r, built)"
      and first: "block_shortcut (rn_stages r ! 0 ! 0) =
             \<lparr>sc_conv = Some (DirectStride
                (ConvBNACT_init rt 64
                   (case BottleneckBlockClass of BasicBlockClass \<Rightarrow> 64 | BottleneckBlockClass \<Rightarrow> 256)
                   1 (PairStride 1 1) 0 1 None))\<rparr>"
      and tails: "\<forall>blk i. blk < 4 \<and> 0 < i \<and> i < [3, 4, 6, 3] ! blk \<longrightarrow>
              block_shortcut (rn_stages r ! blk ! i) =
                \<lparr>sc_conv =
                   (case BottleneckBlockClass of
                      BasicBlockClass \<Rightarrow> None
                    | BottleneckBlockClass \<Rightarrow>
                        Some (PoolThenStride
                          (ConvBNACTNew_init rt ([64, 128, 256, 512] ! blk)
                             ([64, 128, 256, 512] ! blk * 4) 1 (PairStride 1 1) 1 None)))\<rparr>"
      by (elim exE conjE) (rule that)
    have s00: "block_shortcut (rn_stages r ! 0 ! 0) =
          \<lparr>sc_conv = Some (DirectStride (ConvBNACT_init rt 64 256 1 (PairStride 1 1) 0 1 None))\<rparr>"
      using first by simp
    have s01: "block_shortcut (rn_stages r ! 0 ! 1) =
          \<lparr>sc_conv = Some (PoolThenStride
                             (ConvBNACTNew_init rt 64 256 1 (PairStride 1 1) 1 None))\<rparr>"
      using tails [rule_format, of 0 1] by simp
    show ?thesis
      by (rule exI [of _ r], rule exI [of _ built]) (simp only: i s00 s01 simp_thms)
  qed
qed

section \<open>The forward pass of a bottleneck block\<close>

text \<open>
  C1. The class \<^verbatim>\<open>BottleneckBlock\<close> defines the method \<^verbatim>\<open>forwart\<close> and no method \<^verbatim>\<open>forward\<close>.
  Applying a bottleneck block to an input therefore runs the \<^verbatim>\<open>forward\<close> inherited from
  \<^verbatim>\<open>nn.Module\<close> and raises \<^verbatim>\<open>NotImplementedError\<close>, for every block and every input; it does
  not return \<open>relu(conv2(conv1(conv0(x))) + shortcut(x))\<close>. The same error ends the forward
  pass of any stage that starts with a bottleneck block.
\<close>

theorem BottleneckBlock_call_not_implemented:
  "map_of BottleneckBlock_methods ''forward'' = None \<and>
   map_of BottleneckBlock_methods ''forwart'' = Some BottleneckBlock_forwart \<and>
   Module_call BottleneckBlock_methods rt self x = Inl (NotImplementedError []) \<and>
   block_call rt (Bottleneck self) x = Inl (NotImplementedError []) \<and>
   stage_forward rt (Bottleneck self # rest) x = Inl (NotImplementedError [])"
  by (simp add: Module_call_def BottleneckBlock_methods_def block_call_def bind_e_def)

section \<open>The assembled virtual-depth backbone\<close>

text \<open>
  The first block the assembler constructs is \<open>block_class(64, 64, (1, 1), True)\<close>, and it is
  the head of the first stage.
\<close>

lemma ResNet_init_first_block:
  assumes "map_of supported_layers layers = Some (depth, cls)" and "length depth = 4"
    and "depth ! 0 \<noteq> 0"
  shows "\<exists>r built b. ResNet_init rt c layers = (Inr r, built) \<and>
           block_class_init cls rt 64 64 (PairStride 1 1) True = Inr b \<and>
           hd (hd (rn_stages r)) = b"
proof -
  let ?nf = "[64, 128, 256, 512 :: int]"
  let ?stem = "[ConvBNACT_init rt c 32 3 (IntStride 1) 1 1 (Some ''relu''),
                ConvBNACT_init rt 32 32 3 (IntStride 1) 1 1 (Some ''relu''),
                ConvBNACT_init rt 32 64 3 (IntStride 1) 1 1 (Some ''relu'')]"
  let ?built = "map RnConv ?stem @ [RnPool \<lparr>mp_kernel_size = 3, mp_stride = 2, mp_padding = 1\<rparr>]"
  obtain b where b: "block_class_init cls rt 64 64 (PairStride 1 1) True = Inr b"
    using block_class_init_pair by blast
  have u: "[0..<depth ! 0] = 0 # [1..<depth ! 0]"
    using assms(3) by (simp add: upt_conv_Cons)
  have step: "block_list_loop rt cls ?nf 0 (0 # [1..<depth ! 0]) (64, [], ?built) =
                block_list_loop rt cls ?nf 0 [1..<depth ! 0] (64, [b], ?built @ [RnBlock b])"
    using b by (simp add: py_index_def)
  have lt: "(0::nat) < length ?nf" by simp
  obtain sfx built1 c1 where
    l: "block_list_loop rt cls ?nf 0 [1..<depth ! 0] (64, [b], ?built @ [RnBlock b]) =
          (Inr (c1, [b] @ sfx), built1)"
    using block_list_loop_ok [OF lt, of rt cls "[1..<depth ! 0]" 64 "[b]" "?built @ [RnBlock b]"]
    by blast
  have rest: "\<forall>k \<in> set [1, 2, 3 :: nat]. k < length ?nf" by simp
  obtain sfx2 built2 c2 where
    r: "stages_loop rt cls depth ?nf [1, 2, 3] (c1, [] @ [b # sfx], built1) =
          (Inr (c2, ([] @ [b # sfx]) @ sfx2), built2)"
    using stages_loop_ok [OF rest, of rt cls depth c1 "[] @ [b # sfx]" built1] by blast
  have "stages_loop rt cls depth ?nf [0, 1, 2, 3] (64, [], ?built) =
          (Inr (c2, (b # sfx) # sfx2), built2)"
    using u step l r by simp
  then show ?thesis
    using assms(1,2) b by (simp add: ResNet_init_def Let_def upt4)
qed

text \<open>
  C9. A shortcut sub-block constructed with \<open>if_first\<close> true holds the direct-stride unit
  \<^verbatim>\<open>ConvBNACT\<close> (kernel 1, no activation) whenever its construction succeeds, also for equal
  channel counts and stride \<open>(1, 1)\<close>; its forward pass is the convolution followed by the
  normalisation, never the identity. Applying a basic block constructed with \<open>if_first\<close>
  true runs its \<^verbatim>\<open>forward\<close>, which returns the rectified sum of the main path (two 3x3
  units) and of that normalised 1x1 convolution of the input. At depths 18 and 34 the
  first block of the first stage is a basic block from 64 to 64 channels at stride
  \<open>(1, 1)\<close>, its shortcut is that unit, and applying the block to \<open>x\<close> returns that sum.
\<close>

theorem first_shortcut_never_identity:
  "(ShurtCut_init rt cin cout strd True = Inr s \<longrightarrow>
      sc_conv s = Some (DirectStride (ConvBNACT_init rt cin cout 1 strd 0 1 None)) \<and>
      ShurtCut_forward rt s x =
        Inr (batch_norm rt (BatchNorm2d_init rt cout)
               (conv2d rt (Conv2d_init rt cin cout 1 strd 0 1 False) x))) \<and>
   ShurtCut_init rt cin cin (PairStride 1 1) True =
     Inr \<lparr>sc_conv = Some (DirectStride (ConvBNACT_init rt cin cin 1 (PairStride 1 1) 0 1 None))\<rparr> \<and>
   (BasicBlock_init rt cin cout strd True = Inr bb \<longrightarrow>
      block_call rt (Basic bb) x = BasicBlock_forward rt bb x \<and>
      BasicBlock_forward rt bb x =
        Inr (F_relu (tensor_add rt
               (batch_norm rt (BatchNorm2d_init rt cout)
                  (conv2d rt (Conv2d_init rt cout cout 3 (IntStride 1) 1 1 False)
                     (F_relu (batch_norm rt (BatchNorm2d_init rt cout)
                        (conv2d rt (Conv2d_init rt cin cout 3 strd 1 1 False) x)))))
               (batch_norm rt (BatchNorm2d_init rt cout)
                  (conv2d rt (Conv2d_init rt cin cout 1 strd 0 1 False) x))))) \<and>
   (layers = 18 \<or> layers = 34 \<longrightarrow>
      (\<exists>r built b. ResNet_init rt c layers = (Inr r, built) \<and>
         hd (hd (rn_stages r)) = Basic b \<and>
         conv_in_channels (cba_conv (bb_conv0 b)) = 64 \<and>
         conv_out_channels (cba_conv (bb_conv0 b)) = 64 \<and>
         conv_stride (cba_conv (bb_conv0 b)) = PairStride 1 1 \<and>
         bb_shortcut b =
           \<lparr>sc_conv = Some (DirectStride (ConvBNACT_init rt 64 64 1 (PairStride 1 1) 0 1 None))\<rparr> \<and>
         block_call rt (hd (hd (rn_stages r))) x =
           Inr (F_relu (tensor_add rt
               (batch_norm rt (BatchNorm2d_init rt 64)
                  (conv2d rt (Conv2d_init rt 64 64 3 (IntStride 1) 1 1 False)
                     (F_relu (batch_norm rt (BatchNorm2d_init rt 64)
                        (conv2d rt (Conv2d_init rt 64 64 3 (PairStride 1 1) 1 1 False) x)))))
               (batch_norm rt (BatchNorm2d_init rt 64)
                  (conv2d rt (Conv2d_init rt 64 64 1 (PairStride 1 1) 0 1 False) x))))))"
proof (intro conjI impI)
  assume a: "ShurtCut_init rt cin cout strd True = Inr s"
  then show d: "sc_conv s = Some (DirectStride (ConvBNACT_init rt cin cout 1 strd 0 1 None))"
    by (cases strd) (auto simp: ShurtCut_init_def Let_def split: if_splits)
  show "ShurtCut_forward rt s x =
        Inr (batch_norm rt (BatchNorm2d_init rt cout)
               (conv2d rt (Conv2d_init rt cin cout 1 strd 0 1 False) x))"
    by (simp add: ShurtCut_forward_def d ConvBNACT_forward_def ConvBNACT_init_def)
next
  show "ShurtCut_init rt cin cin (PairStride 1 1) True =
     Inr \<lparr>sc_conv = Some (DirectStride (ConvBNACT_init rt cin cin 1 (PairStride 1 1) 0 1 None))\<rparr>"
    by (simp add: ShurtCut_init_pair)
next
  show "block_call rt (Basic bb) x = BasicBlock_forward rt bb x"
    by (rule block_call_Basic)
next
  assume "BasicBlock_init rt cin cout strd True = Inr bb"
  then show "BasicBlock_forward rt bb x =
        Inr (F_relu (tensor_add rt
               (batch_norm rt (BatchNorm2d_init rt cout)
                  (conv2d rt (Conv2d_init rt cout cout 3 (IntStride 1) 1 1 False)
                     (F_relu (batch_norm rt (BatchNorm2d_init rt cout)
                        (conv2d rt (Conv2d_init rt cin cout 3 strd 1 1 False) x)))))
               (batch_norm rt (BatchNorm2d_init rt cout)
                  (conv2d rt (Conv2d_init rt cin cout 1 strd 0 1 False) x))))"
    by (rule BasicBlock_forward_first)
next
  assume "layers = 18 \<or> layers = 34"
  then obtain depth where m: "map_of supported_layers layers = Some (depth, BasicBlockClass)"
    and len: "length depth = 4" and d0: "depth ! 0 \<noteq> 0"
    by (auto simp: supported_layers_def)
  from ResNet_init_first_block [OF m len d0, of rt c]
  obtain r built b where i: "ResNet_init rt c layers = (Inr r, built)"
    and b: "block_class_init BasicBlockClass rt 64 64 (PairStride 1 1) True = Inr b"
    and h: "hd (hd (rn_stages r)) = b"
    by blast
  from b obtain bb' where bb: "b = Basic bb'"
    and init: "BasicBlock_init rt 64 64 (PairStride 1 1) True = Inr bb'"
    by (auto simp: block_class_init_def split: sum.splits)
  from init have f:
    "conv_in_channels (cba_conv (bb_conv0 bb')) = 64"
    "conv_out_channels (cba_conv (bb_conv0 bb')) = 64"
    "conv_stride (cba_conv (bb_conv0 bb')) = PairStride 1 1"
    "bb_shortcut bb' =
       \<lparr>sc_conv = Some (DirectStride (ConvBNACT_init rt 64 64 1 (PairStride 1 1) 0 1 None))\<rparr>"
    by (auto simp: BasicBlock_init_def ShurtCut_init_pair ConvBNACT_init_def Conv2d_init_def Let_def)
  have h': "hd (hd (rn_stages r)) = Basic bb'" using h bb by simp
  have call: "block_call rt (hd (hd (rn_stages r))) x =
           Inr (F_relu (tensor_add rt
               (batch_norm rt (BatchNorm2d_init rt 64)
                  (conv2d rt (Conv2d_init rt 64 64 3 (IntStride 1) 1 1 False)
                     (F_relu (batch_norm rt (BatchNorm2d_init rt 64)
                        (conv2d rt (Conv2d_init rt 64 64 3 (PairStride 1 1) 1 1 False) x)))))
               (batch_norm rt (BatchNorm2d_init rt 64)
                  (conv2d rt (Conv2d_init rt 64 64 1 (PairStride 1 1) 0 1 False) x))))"
    unfolding h' block_call_Basic by (rule BasicBlock_forward_first [OF init])
  show "\<exists>r built b. ResNet_init rt c layers = (Inr r, built) \<and>
         hd (hd (rn_stages r)) = Basic b \<and>
         conv_in_channels (cba_conv (bb_conv0 b)) = 64 \<and>
         conv_out_channels (cba_conv (bb_conv0 b)) = 64 \<and>
         conv_stride (cba_conv (bb_conv0 b)) = PairStride 1 1 \<and>
         bb_shortcut b =
           \<lparr>sc_conv = Some (DirectStride (ConvBNACT_init rt 64 64 1 (PairStride 1 1) 0 1 None))\<rparr> \<and>
         block_call rt (hd (hd (rn_stages r))) x =
           Inr (F_relu (tensor_add rt
               (batch_norm rt (BatchNorm2d_init rt 64)
                  (conv2d rt (Conv2d_init rt 64 64 3 (IntStride 1) 1 1 False)
                     (F_relu (batch_norm rt (BatchNorm2d_init rt 64)
                        (conv2d rt (Conv2d_init rt 64 64 3 (PairStride 1 1) 1 1 False) x)))))
               (batch_norm rt (BatchNorm2d_init rt 64)
                  (conv2d rt (Conv2d_init rt 64 64 1 (PairStride 1 1) 0 1 False) x))))"
    by (rule exI [of _ r], rule exI [of _ built], rule exI [of _ bb'])
       (intro conjI i h' f call)
qed

theorem first_shortcut_never_identity_witness:
  "\<forall>rt x c. ShurtCut_forward rt
       \<lparr>sc_conv = Some (DirectStride (ConvBNACT_init rt 64 64 1 (PairStride 1 1) 0 1 None))\<rparr> x =
       Inr (batch_norm rt (BatchNorm2d_init rt 64)
              (conv2d rt (Conv2d_init rt 64 64 1 (PairStride 1 1) 0 1 False) x)) \<and>
     BasicBlock_forward rt
       \<lparr>bb_conv0 = ConvBNACT_init rt 64 64 3 (PairStride 1 1) 1 1 (Some ''relu''),
        bb_conv1 = ConvBNACT_init rt 64 64 3 (IntStride 1) 1 1 None,
        bb_shortcut =
          \<lparr>sc_conv = Some (DirectStride (ConvBNACT_init rt 64 64 1 (PairStride 1 1) 0 1 None))\<rparr>\<rparr> x =
       Inr (F_relu (tensor_add rt
               (batch_norm rt (BatchNorm2d_init rt 64)
                  (conv2d rt (Conv2d_init rt 64 64 3 (IntStride 1) 1 1 False)
                     (F_relu (batch_norm rt (BatchNorm2d_init rt 64)
                        (conv2d rt (Conv2d_init rt 64 64 3 (PairStride 1 1) 1 1 False) x)))))
               (batch_norm rt (BatchNorm2d_init rt 64)
                  (conv2d rt (Conv2d_init rt 64 64 1 (PairStride 1 1) 0 1 False) x)))) \<and>
     (\<exists>r built b. ResNet_init rt c 18 = (Inr r, built) \<and>
         hd (hd (rn_stages r)) = Basic b \<and>
         bb_shortcut b =
           \<lparr>sc_conv = Some (DirectStride (ConvBNACT_init rt 64 64 1 (PairStride 1 1) 0 1 None))\<rparr> \<and>
         block_call rt (hd (hd (rn_stages r))) x =
           Inr (F_relu (tensor_add rt
               (batch_norm rt (BatchNorm2d_init rt 64)
                  (conv2d rt (Conv2d_init rt 64 64 3 (IntStride 1) 1 1 False)
                     (F_relu (batch_norm rt (BatchNorm2d_init rt 64)
                        (conv2d rt (Conv2d_init rt 64 64 3 (PairStride 1 1) 1 1 False) x)))))
               (batch_norm rt (BatchNorm2d_init rt 64)
                  (conv2d rt (Conv2d_init rt 64 64 1 (PairStride 1 1) 0 1 False) x)))))"
proof (intro allI)
  fix rt x c
  let ?s = "\<lparr>sc_conv = Some (DirectStride (ConvBNACT_init rt 64 64 1 (PairStride 1 1) 0 1 None))\<rparr>"
  let ?bb = "\<lparr>bb_conv0 = ConvBNACT_init rt 64 64 3 (PairStride 1 1) 1 1 (Some ''relu''),
        bb_conv1 = ConvBNACT_init rt 64 64 3 (IntStride 1) 1 1 None,
        bb_shortcut = ?s\<rparr>"
  let ?out = "Inr (F_relu (tensor_add rt
               (batch_norm rt (BatchNorm2d_init rt 64)
                  (conv2d rt (Conv2d_init rt 64 64 3 (IntStride 1) 1 1 False)
                     (F_relu (batch_norm rt (BatchNorm2d_init rt 64)
                        (conv2d rt (Conv2d_init rt 64 64 3 (PairStride 1 1) 1 1 False) x)))))
               (batch_norm rt (BatchNorm2d_init rt 64)
                  (conv2d rt (Conv2d_init rt 64 64 1 (PairStride 1 1) 0 1 False) x))))"
  have i: "ShurtCut_init rt 64 64 (PairStride 1 1) True = Inr ?s"
    by (simp add: ShurtCut_init_pair)
  have j: "BasicBlock_init rt 64 64 (PairStride 1 1) True = Inr ?bb"
    by (simp add: BasicBlock_init_def i Let_def)
  have k: "(18::int) = 18 \<or> (18::int) = 34" by simp
  note T = first_shortcut_never_identity [where rt = rt and cin = 64 and cout = 64
      and strd = "PairStride 1 1" and s = ?s and x = x and layers = 18 and c = c and bb = ?bb]
  have a: "ShurtCut_forward rt ?s x =
       Inr (batch_norm rt (BatchNorm2d_init rt 64)
              (conv2d rt (Conv2d_init rt 64 64 1 (PairStride 1 1) 0 1 False) x))"
    by (rule T [THEN conjunct1, THEN mp, OF i, THEN conjunct2])
  have f: "BasicBlock_forward rt ?bb x = ?out"
    by (rule T [THEN conjunct2, THEN conjunct2, THEN conjunct1, THEN mp, OF j, THEN conjunct2])
  from T [THEN conjunct2, THEN conjunct2, THEN conjunct2, THEN mp, OF k]
  obtain r built b where r: "ResNet_init rt c 18 = (Inr r, built)"
    and h: "hd (hd (rn_stages r)) = Basic b"
    and sc: "bb_shortcut b = ?s"
    and call: "block_call rt (hd (hd (rn_stages r))) x = ?out"
    by (elim exE conjE) (rule that)
  have e: "\<exists>r built b. ResNet_init rt c 18 = (Inr r, built) \<and>
         hd (hd (rn_stages r)) = Basic b \<and> bb_shortcut b = ?s \<and>
         block_call rt (hd (hd (rn_stages r))) x = ?out"
    by (rule exI [of _ r], rule exI [of _ built], rule exI [of _ b])
       (intro conjI r h sc call)
  from a f e show "ShurtCut_forward rt ?s x =
       Inr (batch_norm rt (BatchNorm2d_init rt 64)
              (conv2d rt (Conv2d_init rt 64 64 1 (PairStride 1 1) 0 1 False) x)) \<and>
     BasicBlock_forward rt ?bb x = ?out \<and>
     (\<exists>r built b. ResNet_init rt c 18 = (Inr r, built) \<and>
         hd (hd (rn_stages r)) = Basic b \<and> bb_shortcut b = ?s \<and>
         block_call rt (hd (hd (rn_stages r))) x = ?out)"
    by (intro conjI)
qed

lemma replicate3: "replicate 3 v = [v, v, v]"
  by (simp add: numeral_3_eq_3)

lemma ResNet_init_bottleneck:
  assumes m: "map_of supported_layers layers = Some (depth, BottleneckBlockClass)"
    and len: "length depth = 4" and pos: "\<forall>d \<in> set depth. d \<noteq> 0" and d3: "depth ! 3 = 3"
  shows "\<exists>r built. ResNet_init rt c layers = (Inr r, built) \<and> rn_out_channels r = 512 \<and>
           map block_out_channels (last (rn_stages r)) = [2048, 2048, 2048]"
proof -
  from ResNet_init_ok [OF m len pos, of rt c]
  obtain r built where i: "ResNet_init rt c layers = (Inr r, built)"
    and o: "rn_out_channels r = 512"
    and w: "map (map block_out_channels) (rn_stages r) =
             map (\<lambda>b. replicate (depth ! b)
                    (case BottleneckBlockClass of BasicBlockClass \<Rightarrow> [64, 128, 256, 512] ! b
                     | BottleneckBlockClass \<Rightarrow> [64, 128, 256, 512] ! b * 4)) [0, 1, 2, 3]"
    by blast
  from w have ne: "rn_stages r \<noteq> []" by auto
  have "map block_out_channels (last (rn_stages r)) =
          last (map (map block_out_channels) (rn_stages r))"
    using ne by (simp add: last_map)
  also have "\<dots> = replicate 3 2048"
    by (simp add: w d3)
  finally have f: "map block_out_channels (last (rn_stages r)) = [2048, 2048, 2048]"
    by (simp only: replicate3)
  show ?thesis
    by (rule exI [of _ r], rule exI [of _ built]) (simp only: i o f)
qed

text \<open>
  C10. For each of the six supported values of \<^verbatim>\<open>layers\<close> the construction succeeds and the
  attribute \<^verbatim>\<open>out_channels\<close> is 512, the last entry of \<^verbatim>\<open>num_filters\<close>. This includes the
  bottleneck depths 50, 101, 152 and 200, where each of the three blocks of the last stage
  ends in a convolution to \<open>512 * 4 = 2048\<close> channels.
\<close>

theorem ResNet_out_channels_512:
  assumes "layers \<in> {18, 34, 50, 101, 152, 200}"
  shows "\<exists>r built. ResNet_init rt in_channels layers = (Inr r, built) \<and>
           rn_out_channels r = 512 \<and>
           (layers \<in> {50, 101, 152, 200} \<longrightarrow>
              map block_out_channels (last (rn_stages r)) = [2048, 2048, 2048])"
proof -
  from assms consider "layers = 18" | "layers = 34" | "layers = 50" | "layers = 101"
    | "layers = 152" | "layers = 200"
    by auto
  then show ?thesis
  proof cases
    case 1
    have "map_of supported_layers layers = Some ([2, 2, 2, 2], BasicBlockClass)"
      by (simp add: 1 supported_layers_def)
    from ResNet_init_ok [OF this, of rt in_channels] show ?thesis
      by (auto simp: 1)
  next
    case 2
    have "map_of supported_layers layers = Some ([3, 4, 6, 3], BasicBlockClass)"
      by (simp add: 2 supported_layers_def)
    from ResNet_init_ok [OF this, of rt in_channels] show ?thesis
      by (auto simp: 2)
  next
    case 3
    have "map_of supported_layers layers = Some ([3, 4, 6, 3], BottleneckBlockClass)"
      by (simp add: 3 supported_layers_def)
    from ResNet_init_bottleneck [OF this, of rt in_channels] show ?thesis
      by auto
  next
    case 4
    have "map_of supported_layers layers = Some ([3, 4, 23, 3], BottleneckBlockClass)"
      by (simp add: 4 supported_layers_def)
    from ResNet_init_bottleneck [OF this, of rt in_channels] show ?thesis
      by auto
  next
    case 5
    have "map_of supported_layers layers = Some ([3, 8, 36, 3], BottleneckBlockClass)"
      by (simp add: 5 supported_layers_def)
    from ResNet_init_bottleneck [OF this, of rt in_channels] show ?thesis
      by auto
  next
    case 6
    have "map_of supported_layers layers = Some ([3, 12, 48, 3], BottleneckBlockClass)"
      by (simp add: 6 supported_layers_def)
    from ResNet_init_bottleneck [OF this, of rt in_channels] show ?thesis
      by auto
  qed
qed

theorem ResNet_out_channels_512_witness:
  "\<forall>rt in_channels. \<exists>r built. ResNet_init rt in_channels 50 = (Inr r, built) \<and>
           rn_out_channels r = 512 \<and>
           map block_out_channels (last (rn_stages r)) = [2048, 2048, 2048]"
proof (intro allI)
  fix rt in_channels
  have "(50::int) \<in> {18, 34, 50, 101, 152, 200}" by simp
  from ResNet_out_channels_512 [OF this, of rt in_channels]
  show "\<exists>r built. ResNet_init rt in_channels 50 = (Inr r, built) \<and>
           rn_out_channels r = 512 \<and>
           map block_out_channels (last (rn_stages r)) = [2048, 2048, 2048]"
    by simp
qed

section \<open>The assembled mobile-inverted backbone and invalid configurations\<close>






section \<open>The mobile-inverted residual unit\<close>

lemma map2_add_commute: "map2 (\<lambda>a b. a + b) xs ys = map2 (\<lambda>a b. a + b) ys (xs :: real list)"
proof (induction xs arbitrary: ys)
  case Nil
  show ?case by simp
next
  case (Cons x xs)
  show ?case by (cases ys) (simp_all add: Cons.IH)
qed

lemma tensor_add_commute: "shape p = shape x \<Longrightarrow> tensor_add rt x p = tensor_add rt p x"
  using map2_add_commute [of "elems x" "elems p"] by (simp add: tensor_add_def)

lemma bind_e_assoc: "bind_e (bind_e m f) g = bind_e m (\<lambda>a. bind_e (f a) g)"
  by (cases m) (simp_all add: bind_e_def)

lemma bind_e_Inr: "bind_e m (\<lambda>y. Inr y) = m"
  by (cases m) (simp_all add: bind_e_def)

text \<open>
  C4. For a mobile-inverted residual unit built from \<open>num_in\<close>, \<open>num_mid\<close>, \<open>num_out\<close>, a
  stride, a kernel size, an activation and \<open>use_se\<close>, write \<open>expand\<close>, \<open>depthwise\<close> and \<open>project\<close>
  for the forward passes of its three convolution units and \<open>gate\<close> for the forward pass of
  its squeeze-excite block (the identity when \<open>use_se\<close> is false). When \<open>num_in = num_out\<close>
  and the stride is the integer 1, the forward pass returns
  \<open>x + project(gate(depthwise(expand(x))))\<close>; otherwise it returns
  \<open>project(gate(depthwise(expand(x))))\<close> with nothing added. An error raised by one of the
  units ends the pass with that error. The sum is elementwise and the same in either
  order when the two shapes agree.
\<close>

theorem ResidualUnit_forward_shortcut:
  "ResidualUnit_forward rt (ResidualUnit_init rt num_in num_mid num_out strd k act use_se) x =
     (let expand = ConvBNACT_forward rt (ConvBNACT_init rt num_in num_mid 1 (IntStride 1) 0 1 act);
          depthwise = ConvBNACT_forward rt
            (ConvBNACT_init rt num_mid num_mid k strd ((k - 1) div 2) num_mid act);
          gate = (if use_se then SEBlock_forward rt (SEBlock_init rt num_mid num_mid)
                  else (\<lambda>y. y));
          project = ConvBNACT_forward rt (ConvBNACT_init rt num_mid num_out 1 (IntStride 1) 0 1 None);
          projected = bind_e (expand x) (\<lambda>a. bind_e (depthwise a) (\<lambda>b. project (gate b)))
      in if num_in = num_out \<and> strd = IntStride 1
         then bind_e projected (\<lambda>p. Inr (tensor_add rt x p))
         else projected) \<and>
   (\<forall>p. shape p = shape x \<longrightarrow> tensor_add rt x p = tensor_add rt p x)"
proof (intro conjI allI impI)
  show "ResidualUnit_forward rt (ResidualUnit_init rt num_in num_mid num_out strd k act use_se) x =
     (let expand = ConvBNACT_forward rt (ConvBNACT_init rt num_in num_mid 1 (IntStride 1) 0 1 act);
          depthwise = ConvBNACT_forward rt
            (ConvBNACT_init rt num_mid num_mid k strd ((k - 1) div 2) num_mid act);
          gate = (if use_se then SEBlock_forward rt (SEBlock_init rt num_mid num_mid)
                  else (\<lambda>y. y));
          project = ConvBNACT_forward rt (ConvBNACT_init rt num_mid num_out 1 (IntStride 1) 0 1 None);
          projected = bind_e (expand x) (\<lambda>a. bind_e (depthwise a) (\<lambda>b. project (gate b)))
      in if num_in = num_out \<and> strd = IntStride 1
         then bind_e projected (\<lambda>p. Inr (tensor_add rt x p))
         else projected)"
    by (cases use_se; cases "num_in = num_out"; cases "strd = IntStride 1")
       (simp_all add: ResidualUnit_forward_def ResidualUnit_init_def Let_def bind_e_assoc
          bind_e_Inr)
next
  fix p :: tensor
  assume "shape p = shape x"
  then show "tensor_add rt x p = tensor_add rt p x"
    by (rule tensor_add_commute)
qed

theorem ResidualUnit_forward_shortcut_witness:
  "\<forall>rt x.
     ResidualUnit_forward rt (ResidualUnit_init rt 16 16 16 (IntStride 1) 3 (Some ''relu'') False) x =
       bind_e
         (bind_e (ConvBNACT_forward rt (ConvBNACT_init rt 16 16 1 (IntStride 1) 0 1 (Some ''relu'')) x)
            (\<lambda>a. bind_e
               (ConvBNACT_forward rt (ConvBNACT_init rt 16 16 3 (IntStride 1) 1 16 (Some ''relu'')) a)
               (\<lambda>b. ConvBNACT_forward rt (ConvBNACT_init rt 16 16 1 (IntStride 1) 0 1 None) b)))
         (\<lambda>p. Inr (tensor_add rt x p)) \<and>
     ResidualUnit_forward rt (ResidualUnit_init rt 16 64 24 (PairStride 2 1) 3 (Some ''relu'') False) x =
       bind_e (ConvBNACT_forward rt (ConvBNACT_init rt 16 64 1 (IntStride 1) 0 1 (Some ''relu'')) x)
         (\<lambda>a. bind_e
            (ConvBNACT_forward rt (ConvBNACT_init rt 64 64 3 (PairStride 2 1) 1 64 (Some ''relu'')) a)
            (\<lambda>b. ConvBNACT_forward rt (ConvBNACT_init rt 64 24 1 (IntStride 1) 0 1 None) b))"
proof (intro allI conjI)
  fix rt x
  show "ResidualUnit_forward rt (ResidualUnit_init rt 16 16 16 (IntStride 1) 3 (Some ''relu'') False) x =
       bind_e
         (bind_e (ConvBNACT_forward rt (ConvBNACT_init rt 16 16 1 (IntStride 1) 0 1 (Some ''relu'')) x)
            (\<lambda>a. bind_e
               (ConvBNACT_forward rt (ConvBNACT_init rt 16 16 3 (IntStride 1) 1 16 (Some ''relu'')) a)
               (\<lambda>b. ConvBNACT_forward rt (ConvBNACT_init rt 16 16 1 (IntStride 1) 0 1 None) b)))
         (\<lambda>p. Inr (tensor_add rt x p))"
    using ResidualUnit_forward_shortcut [of rt 16 16 16 "IntStride 1" 3 "Some ''relu''" False x]
    by (simp add: Let_def)
  show "ResidualUnit_forward rt (ResidualUnit_init rt 16 64 24 (PairStride 2 1) 3 (Some ''relu'') False) x =
       bind_e (ConvBNACT_forward rt (ConvBNACT_init rt 16 64 1 (IntStride 1) 0 1 (Some ''relu'')) x)
         (\<lambda>a. bind_e
            (ConvBNACT_forward rt (ConvBNACT_init rt 64 64 3 (PairStride 2 1) 1 64 (Some ''relu'')) a)
            (\<lambda>b. ConvBNACT_forward rt (ConvBNACT_init rt 64 24 1 (IntStride 1) 0 1 None) b))"
    using ResidualUnit_forward_shortcut [of rt 16 64 24 "PairStride 2 1" 3 "Some ''relu''" False x]
    by (simp add: Let_def)
qed

end
